theory Spec2Isabelle
  imports Main "HOL-Library.Word"
begin

unbundle bit_operations_syntax

section \<open>Failure modes\<close>

text \<open>
  Every way in which the C++ code stops without a result is a value of \<open>error\<close>:
  \<^item> \<open>UserError\<close>: a failed \<^verbatim>\<open>uassert\<close> (user-facing assertion);
  \<^item> \<open>InternalError\<close>: a failed \<^verbatim>\<open>taco_iassert\<close> or a \<^verbatim>\<open>taco_ierror\<close>;
  \<^item> \<open>TemporaryError\<close>: a failed \<^verbatim>\<open>taco_tassert\<close>;
  \<^item> \<open>UndefinedBehaviour\<close>: an operation the C++ standard leaves undefined
    (\<^verbatim>\<open>back()\<close> or \<^verbatim>\<open>[i]\<close> outside a vector, reading a union member that
    was not the one written, a null dereference).
  A function that can fail returns \<open>error + 'a\<close> with \<open>Inl\<close> for the failure.
  \<open>OutOfFuel\<close> is not a failure of the program: it is the answer of the model of a
  recursion when the depth it was given is used up.
\<close>

datatype error = UserError | InternalError | TemporaryError | UndefinedBehaviour | OutOfFuel

definition bind :: "error + 'a \<Rightarrow> ('a \<Rightarrow> error + 'b) \<Rightarrow> error + 'b" where
  "bind m f = (case m of Inl e \<Rightarrow> Inl e | Inr x \<Rightarrow> f x)"

section \<open>The tensor front end (tensor_base.cpp)\<close>

subsection \<open>Data\<close>

text \<open>\<^verbatim>\<open>ComponentType::Bool\<close>, \<^verbatim>\<open>Int\<close>, \<^verbatim>\<open>Float\<close> and \<^verbatim>\<open>Double\<close>.\<close>

datatype ComponentType = CTBool | CTInt | CTFloat | CTDouble

datatype LevelType = Dense | Sparse | Fixed | Offset | Replicated

record Level =
  getType :: LevelType
  getDimension :: nat

text \<open>
  A \<^verbatim>\<open>Coordinate\<close> holds a location and one value, stored in the member that
  belongs to the C++ type of the inserted value (\<^verbatim>\<open>bval\<close>, \<^verbatim>\<open>ival\<close>,
  \<^verbatim>\<open>fval\<close>, \<^verbatim>\<open>dval\<close>: the members \<^verbatim>\<open>pack\<close> selects by component type).
  Single and double precision numbers are only stored and copied here, never computed
  with, so their types are the parameters \<open>'f\<close> and \<open>'d\<close>.
\<close>

datatype ('f, 'd) Value = bval bool | ival int | fval 'f | dval 'd

record ('f, 'd) Coordinate =
  loc :: "int list"
  val :: "('f, 'd) Value"

text \<open>Which overload of the \<^verbatim>\<open>Coordinate\<close> constructor built the value.\<close>

fun typeOfValue :: "('f, 'd) Value \<Rightarrow> ComponentType" where
  "typeOfValue (bval b) = CTBool"
| "typeOfValue (ival i) = CTInt"
| "typeOfValue (fval f) = CTFloat"
| "typeOfValue (dval d) = CTDouble"

text \<open>
  \<^verbatim>\<open>storage::Storage\<close>: the format, the index arrays of each level and the values
  array (\<open>None\<close> while no array has been set).
\<close>

record 'd Storage =
  getFormat :: "Level list"
  getLevelIndex :: "(int list \<times> int list) list"
  getValues :: "'d list option"

text \<open>
  \<^verbatim>\<open>TensorBase::Content\<close>. The members that neither \<^verbatim>\<open>insert\<close> nor the scalar
  path of \<^verbatim>\<open>pack\<close> reads or writes (index variables, expression, arguments,
  schedule, the two IR functions and the module) live in the record's extension.
\<close>

record ('f, 'd) Content =
  name :: string
  dimensions :: "int list"
  ctype :: ComponentType
  coordinates :: "('f, 'd) Coordinate list"
  format :: "Level list"
  storage :: "'d Storage"
  allocSize :: nat

definition getOrder :: "('f, 'd, 'z) Content_scheme \<Rightarrow> nat" where
  "getOrder content = length (dimensions content)"

definition getComponentType :: "('f, 'd, 'z) Content_scheme \<Rightarrow> ComponentType" where
  "getComponentType content = ctype content"

subsection \<open>insert\<close>

text \<open>
  The four overloads of \<^verbatim>\<open>TensorBase::insert\<close>. Each checks the number of indices,
  then the component type, and then appends \<^verbatim>\<open>Coordinate(coord, val)\<close>.
\<close>

definition insert_int ::
  "('f, 'd, 'z) Content_scheme \<Rightarrow> int list \<Rightarrow> int \<Rightarrow> error + ('f, 'd, 'z) Content_scheme" where
  "insert_int content coord v =
     (if length coord \<noteq> getOrder content then Inl UserError
      else if getComponentType content \<noteq> CTInt then Inl UserError
      else Inr (content\<lparr>coordinates := coordinates content @ [\<lparr>loc = coord, val = ival v\<rparr>]\<rparr>))"

definition insert_float ::
  "('f, 'd, 'z) Content_scheme \<Rightarrow> int list \<Rightarrow> 'f \<Rightarrow> error + ('f, 'd, 'z) Content_scheme" where
  "insert_float content coord v =
     (if length coord \<noteq> getOrder content then Inl UserError
      else if getComponentType content \<noteq> CTFloat then Inl UserError
      else Inr (content\<lparr>coordinates := coordinates content @ [\<lparr>loc = coord, val = fval v\<rparr>]\<rparr>))"

definition insert_double ::
  "('f, 'd, 'z) Content_scheme \<Rightarrow> int list \<Rightarrow> 'd \<Rightarrow> error + ('f, 'd, 'z) Content_scheme" where
  "insert_double content coord v =
     (if length coord \<noteq> getOrder content then Inl UserError
      else if getComponentType content \<noteq> CTDouble then Inl UserError
      else Inr (content\<lparr>coordinates := coordinates content @ [\<lparr>loc = coord, val = dval v\<rparr>]\<rparr>))"

definition insert_bool ::
  "('f, 'd, 'z) Content_scheme \<Rightarrow> int list \<Rightarrow> bool \<Rightarrow> error + ('f, 'd, 'z) Content_scheme" where
  "insert_bool content coord v =
     (if length coord \<noteq> getOrder content then Inl UserError
      else if getComponentType content \<noteq> CTBool then Inl UserError
      else Inr (content\<lparr>coordinates := coordinates content @ [\<lparr>loc = coord, val = bval v\<rparr>]\<rparr>))"

text \<open>
  Overload resolution: the static type of the value picks the overload. A call
  \<^verbatim>\<open>insert(coord, v)\<close> is \<open>insert_tb content coord v\<close> with \<open>v\<close> tagged by its type.
\<close>

fun insert_tb ::
  "('f, 'd, 'z) Content_scheme \<Rightarrow> int list \<Rightarrow> ('f, 'd) Value \<Rightarrow> error + ('f, 'd, 'z) Content_scheme" where
  "insert_tb content coord (ival v) = insert_int content coord v"
| "insert_tb content coord (fval v) = insert_float content coord v"
| "insert_tb content coord (dval v) = insert_double content coord v"
| "insert_tb content coord (bval v) = insert_bool content coord v"

subsection \<open>pack, scalar path\<close>

text \<open>
  Reading the member \<^verbatim>\<open>dval\<close> of a coordinate. The coordinate was built by one of
  the four constructors; reading \<^verbatim>\<open>dval\<close> of one that was built from an \<^verbatim>\<open>int\<close>,
  a \<^verbatim>\<open>float\<close> or a \<^verbatim>\<open>bool\<close> does not give the inserted value.
\<close>

fun read_dval :: "('f, 'd, 'y) Coordinate_scheme \<Rightarrow> error + 'd" where
  "read_dval c = (case val c of dval d \<Rightarrow> Inr d | _ \<Rightarrow> Inl UndefinedBehaviour)"

text \<open>
  \<^verbatim>\<open>TensorBase::pack\<close>. For order 0 it allocates a one-element values array, stores
  \<^verbatim>\<open>coordinates[coordinates.size()-1].dval\<close> in it and clears the coordinates. The
  path for order \<open>> 0\<close> (permute, sort, \<^verbatim>\<open>packTensor\<close>) is the argument \<open>packLevels\<close>.
\<close>

definition pack ::
  "(('f, 'd, 'z) Content_scheme \<Rightarrow> error + ('f, 'd, 'z) Content_scheme) \<Rightarrow>
   ('f, 'd, 'z) Content_scheme \<Rightarrow> error + ('f, 'd, 'z) Content_scheme" where
  "pack packLevels content =
     (if getOrder content = 0 then
        (if coordinates content = [] then Inl UndefinedBehaviour
         else bind (read_dval (last (coordinates content))) (\<lambda>d.
           Inr (content\<lparr>storage := (storage content)\<lparr>getValues := Some [d]\<rparr>,
                        coordinates := []\<rparr>)))
      else packLevels content)"

section \<open>The lowering engine (lower.cpp)\<close>

subsection \<open>Index notation, IR and the types lower.cpp takes from its headers\<close>

text \<open>
  The headers that declare these types are not among the sources; the types are
  written down here as lower.cpp uses them. A C++ handle that can be undefined
  (\<^verbatim>\<open>Expr()\<close>, \<^verbatim>\<open>Stmt()\<close>, \<^verbatim>\<open>IndexExpr()\<close>, \<^verbatim>\<open>TensorPathStep()\<close>) has a
  constructor for the undefined handle, and \<^verbatim>\<open>defined()\<close> is the test against it.
\<close>

datatype IndexVar = IndexVar (getName: string)

datatype Datatype = Bool | UInt | TInt | Float32 | Float64

datatype Property = Assemble | Compute | Accumulate | Print

datatype LoopKind = Serial | Static | Dynamic

datatype TensorProperty = Values | ValuesSize

text \<open>
  IR expressions. \<open>IntLiteral\<close> is a \<^verbatim>\<open>long long\<close> literal (\<^verbatim>\<open>0ll\<close>, \<^verbatim>\<open>1ll\<close>),
  \<open>UIntLiteral\<close> an \<^verbatim>\<open>unsigned long long\<close> one, \<open>FloatZero\<close> the literal \<^verbatim>\<open>0.0\<close>
  (the only floating-point literal lower.cpp builds).
\<close>

datatype Expr =
    UndefExpr
  | BoolLiteral bool
  | IntLiteral int
  | UIntLiteral nat
  | FloatZero
  | Var string Datatype
  | GetProperty Expr TensorProperty
  | Add Expr Expr
  | Sub Expr Expr
  | Mul Expr Expr
  | Lt Expr Expr
  | Lte Expr Expr
  | Eq Expr Expr
  | Neq Expr Expr
  | And Expr Expr
  | BitAnd Expr Expr
  | Cast Expr Datatype
  | Load Expr Expr

text \<open>
  IR statements, with the arguments of the \<^verbatim>\<open>make\<close> functions in their order:
  \<^verbatim>\<open>VarAssign::make(lhs, rhs, is_decl)\<close>, \<^verbatim>\<open>Store::make(arr, loc, data)\<close>,
  \<^verbatim>\<open>Allocate::make(var, num_elements, is_realloc)\<close>, \<^verbatim>\<open>IfThenElse::make(cond, then)\<close>,
  \<^verbatim>\<open>For::make(var, start, end, increment, body, kind)\<close>, \<^verbatim>\<open>While::make(cond, body)\<close>,
  \<^verbatim>\<open>Case::make(clauses, alwaysMatch)\<close>, \<^verbatim>\<open>Switch::make(cases, controlExpr)\<close>,
  \<^verbatim>\<open>Function::make(name, outputs, inputs, body)\<close>.
\<close>

datatype Stmt =
    UndefStmt
  | VarAssign Expr Expr bool
  | Store Expr Expr Expr
  | Allocate Expr Expr bool
  | IfThenElse Expr Stmt
  | Block "Stmt list"
  | For Expr Expr Expr Expr Stmt LoopKind
  | While Expr Stmt
  | Case "(Expr \<times> Stmt) list" bool
  | Switch "(Expr \<times> Stmt) list" Expr
  | Function string "Expr list" "Expr list" Stmt
  | BlankLine

text \<open>
  Modelled from the spec: \<^verbatim>\<open>storage::Iterator\<close> (storage/iterator.h is not among the
  sources), "a polymorphic handle over the capability set" with "stable expressions
  for posVar, endVar, beginVar, iteratorVar, idxVar, derivedVar, validVar, segendVar".
  The parent of the root iterator is the undefined iterator (\<open>None\<close>). The methods that
  build IR fragments are fields of \<open>IteratorOps\<close> below.
\<close>

datatype Iterator = Iterator
  (getParent: "Iterator option")
  (getTensor: Expr)
  (hasCoordPosIter: bool) (hasCoordValIter: bool) (hasLocate: bool)
  (hasAppend: bool) (hasInsert: bool)
  (isUnique: bool) (isFull: bool) (isBranchless: bool)
  (getPosVar: Expr) (getEndVar: Expr) (getBeginVar: Expr) (getIteratorVar: Expr)
  (getIdxVar: Expr) (getDerivedVar: Expr) (getValidVar: Expr) (getSegendVar: Expr)
  (getSize: Expr)

text \<open>
  Modelled from the spec: \<^verbatim>\<open>TensorPath\<close> and \<^verbatim>\<open>TensorPathStep\<close> (tensor_path.h is not
  among the sources), "the ordered sequence of index variables used to access one
  TensorVar", "one step per level". \<open>getAccessName\<close> is
  \<^verbatim>\<open>getAccess().getTensorVar().getName()\<close>.
\<close>

datatype TensorPath = TensorPath (getAccessName: string) (getVariables: "IndexVar list")

datatype TensorPathStep = UndefStep | Step TensorPath nat

definition getPathSize :: "TensorPath \<Rightarrow> nat" where
  "getPathSize p = length (getVariables p)"

text \<open>\<^verbatim>\<open>util::locate\<close>: the position of the first occurrence.\<close>

fun locate :: "'a list \<Rightarrow> 'a \<Rightarrow> nat" where
  "locate [] v = 0"
| "locate (x # xs) v = (if x = v then 0 else Suc (locate xs v))"

text \<open>
  \<^verbatim>\<open>TensorPath::getStep(const IndexVar&)\<close>: the step at which the path uses the
  variable, the undefined step when it does not use it (lower.cpp tests the result with
  \<^verbatim>\<open>getPath().defined()\<close>).
\<close>

definition getStepOf :: "TensorPath \<Rightarrow> IndexVar \<Rightarrow> TensorPathStep" where
  "getStepOf p v = (if v \<in> set (getVariables p) then Step p (locate (getVariables p) v)
                    else UndefStep)"

text \<open>
  Modelled from the spec: \<^verbatim>\<open>IterationGraph\<close> (iteration_graph.h is not among the
  sources), the query interface of section 4.2. \<open>getAncestors\<close> lists a variable's
  ancestors with the variable itself, so a root has exactly one.
\<close>

record IterationGraph =
  getRoots :: "IndexVar list"
  getChildren :: "IndexVar \<Rightarrow> IndexVar list"
  getAncestors :: "IndexVar \<Rightarrow> IndexVar list"
  getDescendants :: "IndexVar \<Rightarrow> IndexVar list"
  isReduction :: "IndexVar \<Rightarrow> bool"
  isLastFreeVariable :: "IndexVar \<Rightarrow> bool"
  hasFreeVariableDescendant :: "IndexVar \<Rightarrow> bool"
  hasReductionVariableAncestor :: "IndexVar \<Rightarrow> bool"
  getTensorPaths :: "TensorPath list"
  getResultTensorPath :: TensorPath

text \<open>
  Modelled from the spec: \<^verbatim>\<open>Iterators\<close> (iterators.h is not among the sources), the
  iterator table: "every TensorPathStep has exactly one Iterator". \<open>lookup\<close> is
  \<^verbatim>\<open>operator[]\<close>, \<open>getRoot\<close> the root iterator of a path.
\<close>

record Iterators =
  lookup :: "TensorPathStep \<Rightarrow> Iterator"
  getRoot :: "TensorPath \<Rightarrow> Iterator"

text \<open>
  Tensor variables and index notation: a tensor variable has a name, a type and an
  assignment (undefined for a temporary); the expression nodes are those of the
  expression visitor in lower.cpp. The operator of an assignment is an expression
  handle that is undefined for \<^verbatim>\<open>=\<close>.
\<close>

datatype TensorVar =
    TensorVar (getTensorName: string) (getTensorType: Datatype) (getAssignment: Assignment)
and Assignment =
    UndefAssignment
  | Assignment (getRhs: IndexExpr) (getFreeVars: "IndexVar list") (getOperator: IndexExpr)
and IndexExpr =
    UndefIndexExpr
  | AccessNode TensorVar "IndexVar list"
  | LiteralNode int
  | NegNode IndexExpr
  | AddNode IndexExpr IndexExpr
  | SubNode IndexExpr IndexExpr
  | MulNode IndexExpr IndexExpr
  | DivNode IndexExpr IndexExpr
  | SqrtNode IndexExpr
  | ReductionNode IndexExpr IndexVar IndexExpr

text \<open>\<^verbatim>\<open>struct Ctx\<close>. A \<^verbatim>\<open>std::map\<close> read with \<^verbatim>\<open>operator[]\<close> gives the
  default-constructed (undefined) expression for a key it does not hold, so \<open>idxVars\<close>
  is a total function.\<close>

record Ctx =
  properties :: "Property set"
  iterationGraph :: IterationGraph
  iterators :: Iterators
  temporaries :: "(TensorVar \<times> Expr) list"
  idxVars :: "Iterator \<Rightarrow> Expr"
  valsCapacity :: Expr

subsection \<open>needsZero\<close>

text \<open>The inner loop of \<^verbatim>\<open>needsZero(ctx, resultIdxVars)\<close> over the tensor paths.\<close>

fun needsZero_paths :: "Ctx \<Rightarrow> IndexVar \<Rightarrow> TensorPath list \<Rightarrow> bool" where
  "needsZero_paths ctx idxVar [] = False"
| "needsZero_paths ctx idxVar (tensorPath # rest) =
     (if idxVar \<in> set (getVariables tensorPath) \<and>
         \<not> isFull (lookup (iterators ctx) (getStepOf tensorPath idxVar))
      then True
      else needsZero_paths ctx idxVar rest)"

text \<open>\<^verbatim>\<open>needsZero(const Ctx&, const std::vector<IndexVar>&)\<close>.\<close>

fun needsZero_vars :: "Ctx \<Rightarrow> IndexVar list \<Rightarrow> bool" where
  "needsZero_vars ctx [] = False"
| "needsZero_vars ctx (idxVar # rest) =
     (if hasInsert (lookup (iterators ctx)
            (getStepOf (getResultTensorPath (iterationGraph ctx)) idxVar))
      then (if needsZero_paths ctx idxVar (getTensorPaths (iterationGraph ctx)) then True
            else needsZero_vars ctx rest)
      else needsZero_vars ctx rest)"

text \<open>\<^verbatim>\<open>needsZero(const Ctx&)\<close>. \<^verbatim>\<open>back()\<close> of an empty vector is undefined.\<close>

definition needsZero :: "Ctx \<Rightarrow> error + bool" where
  "needsZero ctx =
     (let graph = iterationGraph ctx;
          resultIdxVars = getVariables (getResultTensorPath graph)
      in if resultIdxVars = [] then Inl UndefinedBehaviour
         else if hasReductionVariableAncestor graph (last resultIdxVars) then Inr True
         else Inr (needsZero_vars ctx resultIdxVars))"

subsection \<open>doParallelize\<close>

text \<open>The loop over the steps \<open>0 .. getSize-1\<close> of the result path: false at the first
  step whose iterator cannot insert.\<close>

fun resultStepsInsert :: "Ctx \<Rightarrow> TensorPath \<Rightarrow> nat list \<Rightarrow> bool" where
  "resultStepsInsert ctx resultPath [] = True"
| "resultStepsInsert ctx resultPath (i # rest) =
     (if \<not> hasInsert (lookup (iterators ctx) (Step resultPath i)) then False
      else resultStepsInsert ctx resultPath rest)"

text \<open>The lambda that finds the parallelized access: the first tensor path whose tensor
  has the name of the iterated tensor; \<^verbatim>\<open>taco_iassert(false)\<close> when there is none.\<close>

fun findTensorPath :: "string \<Rightarrow> TensorPath list \<Rightarrow> error + TensorPath" where
  "findTensorPath tensorName [] = Inl InternalError"
| "findTensorPath tensorName (tensorPath # rest) =
     (if getAccessName tensorPath = tensorName then Inr tensorPath
      else findTensorPath tensorName rest)"

text \<open>The loop over the steps \<open>1 .. getSize-1\<close> of the parallelized access: true at the
  first step whose iterator is full.\<close>

fun someStepFull :: "Ctx \<Rightarrow> TensorPath \<Rightarrow> nat list \<Rightarrow> bool" where
  "someStepFull ctx parallelizedAccess [] = False"
| "someStepFull ctx parallelizedAccess (i # rest) =
     (if isFull (lookup (iterators ctx) (Step parallelizedAccess i)) then True
      else someStepFull ctx parallelizedAccess rest)"

text \<open>\<^verbatim>\<open>tensor.as<Var>()->name\<close>: a null dereference unless the expression is a
  variable.\<close>

fun varName :: "Expr \<Rightarrow> error + string" where
  "varName (Var n t) = Inr n"
| "varName e = Inl UndefinedBehaviour"

definition doParallelize :: "IndexVar \<Rightarrow> Expr \<Rightarrow> Ctx \<Rightarrow> error + LoopKind" where
  "doParallelize indexVar tensor ctx =
     (if length (getAncestors (iterationGraph ctx) indexVar) \<noteq> 1 \<or>
         isReduction (iterationGraph ctx) indexVar \<or>
         Assemble \<in> properties ctx
      then Inr Serial
      else
        let resultPath = getResultTensorPath (iterationGraph ctx) in
        if \<not> resultStepsInsert ctx resultPath [0 ..< getPathSize resultPath] then Inr Serial
        else
          bind (bind (varName tensor) (\<lambda>tensorName.
                  findTensorPath tensorName (getTensorPaths (iterationGraph ctx))))
            (\<lambda>parallelizedAccess.
              if getPathSize parallelizedAccess \<le> 2 then Inr Static
              else if someStepFull ctx parallelizedAccess [1 ..< getPathSize parallelizedAccess]
                   then Inr Static
              else Inr Dynamic))"

text \<open>
  The rule of section 4.5.7 of the specification, in its words: serial when the
  variable is not a root, is a reduction variable or assembling; otherwise static when
  the parallelized access has at most two steps or every non-leading step is full, and
  dynamic in the remaining cases. Written down to be compared with \<open>doParallelize\<close>.
\<close>

definition doParallelize_spec :: "IndexVar \<Rightarrow> Expr \<Rightarrow> Ctx \<Rightarrow> error + LoopKind" where
  "doParallelize_spec indexVar tensor ctx =
     (if indexVar \<notin> set (getRoots (iterationGraph ctx)) \<or>
         isReduction (iterationGraph ctx) indexVar \<or>
         Assemble \<in> properties ctx
      then Inr Serial
      else
        bind (bind (varName tensor) (\<lambda>tensorName.
                findTensorPath tensorName (getTensorPaths (iterationGraph ctx))))
          (\<lambda>parallelizedAccess.
            if getPathSize parallelizedAccess \<le> 2 then Inr Static
            else if (\<forall>i \<in> {1 ..< getPathSize parallelizedAccess}.
                       isFull (lookup (iterators ctx) (Step parallelizedAccess i)))
                 then Inr Static
            else Inr Dynamic))"

subsection \<open>What the recursive lowering takes from absent headers\<close>

text \<open>
  Modelled from the spec: merge lattice points and merge lattices (merge_lattice.h is
  not among the sources), section 4.3: a lattice is "an ordered sequence of lattice
  points"; a point carries its iterators, its range iterators and its expression.
  \<open>getLatticeRangeIterators\<close> is \<^verbatim>\<open>MergeLattice::getRangeIterators\<close>,
  \<open>isLatticeFull\<close> is \<^verbatim>\<open>MergeLattice::isFull\<close>, and \<^verbatim>\<open>getSize\<close> counts the points.
\<close>

record MergeLatticePoint =
  getIterators :: "Iterator list"
  getRangeIterators :: "Iterator list"
  getExpr :: IndexExpr

record MergeLattice =
  getPoints :: "MergeLatticePoint list"
  getLatticeRangeIterators :: "Iterator list"
  isLatticeFull :: bool

definition getLatticeSize :: "MergeLattice \<Rightarrow> nat" where
  "getLatticeSize lattice = length (getPoints lattice)"

text \<open>
  The methods of \<^verbatim>\<open>storage::Iterator\<close> that build IR (section 4.1 of the
  specification). Each returns IR fragments; an absent statement is \<open>UndefStmt\<close>.
  They are parameters of the model: lower.cpp only places what they return.
\<close>

record IteratorOps =
  getPosIter :: "Iterator \<Rightarrow> Expr \<Rightarrow> Stmt \<times> Expr \<times> Expr"
  getCoordIter :: "Iterator \<Rightarrow> Expr list \<Rightarrow> Stmt \<times> Expr \<times> Expr"
  getPosAccess :: "Iterator \<Rightarrow> Expr \<Rightarrow> Expr list \<Rightarrow> Stmt \<times> Expr \<times> Expr"
  getCoordAccess :: "Iterator \<Rightarrow> Expr \<Rightarrow> Expr list \<Rightarrow> Stmt \<times> Expr \<times> Expr"
  getLocate :: "Iterator \<Rightarrow> Expr \<Rightarrow> Expr list \<Rightarrow> Stmt \<times> Expr \<times> Expr"
  getInsertInitCoords :: "Iterator \<Rightarrow> Expr \<Rightarrow> Expr \<Rightarrow> Stmt"
  getAppendInitEdges :: "Iterator \<Rightarrow> Expr \<Rightarrow> Expr \<Rightarrow> Stmt"
  getAppendCoord :: "Iterator \<Rightarrow> Expr \<Rightarrow> Expr \<Rightarrow> Stmt"
  getInsertCoord :: "Iterator \<Rightarrow> Expr \<Rightarrow> Expr list \<Rightarrow> Stmt"
  getAppendEdges :: "Iterator \<Rightarrow> Expr \<Rightarrow> Expr \<Rightarrow> Expr \<Rightarrow> Stmt"
  getAppendInitLevel :: "Iterator \<Rightarrow> Expr \<Rightarrow> Expr \<Rightarrow> Stmt"
  getInsertInitLevel :: "Iterator \<Rightarrow> Expr \<Rightarrow> Expr \<Rightarrow> Stmt"
  getAppendFinalizeLevel :: "Iterator \<Rightarrow> Expr \<Rightarrow> Expr \<Rightarrow> Stmt"
  getInsertFinalizeLevel :: "Iterator \<Rightarrow> Expr \<Rightarrow> Expr \<Rightarrow> Stmt"

text \<open>
  The helper functions lower.cpp calls from ir/simplify.h, ir/ir_generators.h,
  lower_codegen.h, expr_tools.h, index_notation_rewriter.h, merge_lattice.h,
  iteration_graph.h and iterators.h, none of which is among the sources. They are
  parameters of the model. \<open>minExpr\<close> is \<^verbatim>\<open>min(name, iterators, &stmts)\<close> and
  \<open>minWithIndicator\<close> is \<^verbatim>\<open>minWithIndicator(name, iterators, &stmts)\<close>: each gives
  the statements it appends and the expressions it returns. \<open>exprType\<close> is
  \<^verbatim>\<open>Expr::type()\<close>.
\<close>

record Tools =
  simplify :: "Expr \<Rightarrow> Expr"
  conjunction :: "Expr list \<Rightarrow> Expr"
  compoundStore :: "Expr \<Rightarrow> Expr \<Rightarrow> Expr \<Rightarrow> Stmt"
  compoundAssign :: "Expr \<Rightarrow> Expr \<Rightarrow> Stmt"
  exprType :: "Expr \<Rightarrow> Datatype"
  minExpr :: "string \<Rightarrow> Iterator list \<Rightarrow> Stmt list \<times> Expr"
  minWithIndicator :: "string \<Rightarrow> Iterator list \<Rightarrow> Stmt list \<times> Expr \<times> Expr"
  lowerToScalarExpression ::
    "IndexExpr \<Rightarrow> Iterators \<Rightarrow> IterationGraph \<Rightarrow> (TensorVar \<times> Expr) list \<Rightarrow> Expr"
  getAvailableExpressions :: "IndexExpr \<Rightarrow> IndexVar list \<Rightarrow> IndexExpr list"
  getSubExpr :: "IndexExpr \<Rightarrow> IndexVar list \<Rightarrow> IndexExpr"
  getSubExprOld :: "IndexExpr \<Rightarrow> IndexVar list \<Rightarrow> IndexExpr"
  replace :: "IndexExpr \<Rightarrow> (IndexExpr \<times> IndexExpr) list \<Rightarrow> IndexExpr"
  getDataType :: "IndexExpr \<Rightarrow> Datatype"
  makeLattice :: "IndexExpr \<Rightarrow> IndexVar \<Rightarrow> IterationGraph \<Rightarrow> Iterators \<Rightarrow> MergeLattice"
  getSubLattice :: "MergeLattice \<Rightarrow> MergeLatticePoint \<Rightarrow> MergeLattice"
  exhaustedAccesses :: "MergeLatticePoint \<Rightarrow> MergeLattice \<Rightarrow> IndexExpr set"

record Env =
  ops :: IteratorOps
  tools :: Tools

record Target =
  target_tensor :: Expr
  target_pos :: Expr

text \<open>The type of the recursive call
  \<^verbatim>\<open>lower(target, indexVar, indexExpr, exhausted, ctx)\<close>: it returns the statements
  and leaves the context, which it takes by reference, changed.\<close>

type_synonym Lower =
  "Target \<Rightarrow> IndexVar \<Rightarrow> IndexExpr \<Rightarrow> IndexExpr set \<Rightarrow> Ctx \<Rightarrow> error + (Stmt list \<times> Ctx)"

subsection \<open>Small helpers of lower.cpp\<close>

datatype ComputeCase = LAST_FREE | ABOVE_LAST_FREE | BELOW_LAST_FREE

definition getComputeCase :: "IndexVar \<Rightarrow> IterationGraph \<Rightarrow> ComputeCase" where
  "getComputeCase indexVar graph =
     (if isLastFreeVariable graph indexVar then LAST_FREE
      else if hasFreeVariableDescendant graph indexVar then ABOVE_LAST_FREE
      else BELOW_LAST_FREE)"

text \<open>\<^verbatim>\<open>isa<ir::Literal>\<close>.\<close>

fun isLiteral :: "Expr \<Rightarrow> bool" where
  "isLiteral (BoolLiteral b) = True"
| "isLiteral (IntLiteral i) = True"
| "isLiteral (UIntLiteral n) = True"
| "isLiteral FloatZero = True"
| "isLiteral e = False"

text \<open>A statement is pushed only when it is defined.\<close>

definition ifDefined :: "Stmt \<Rightarrow> Stmt list" where
  "ifDefined s = (if s \<noteq> UndefStmt then [s] else [])"

text \<open>The chain \<^verbatim>\<open>getParent()\<close>, \<^verbatim>\<open>getParent().getParent()\<close>, ... of the defined
  ancestors of an iterator, nearest first.\<close>

function parents :: "Iterator \<Rightarrow> Iterator list" where
  "parents it = (case getParent it of None \<Rightarrow> [] | Some p \<Rightarrow> p # parents p)"
  by pat_completeness auto
termination
proof (relation "measure size")
  show "wf (measure size)" by simp
next
  fix it :: Iterator and p
  assume "getParent it = Some p"
  then show "(p, it) \<in> measure size" by (cases it) simp
qed

text \<open>\<^verbatim>\<open>getIdxVars\<close>: the index expressions of the iterator (when asked for) and of
  its ancestors, root first. Every caller passes a defined iterator.\<close>

definition getIdxVars :: "(Iterator \<Rightarrow> Expr) \<Rightarrow> Iterator \<Rightarrow> bool \<Rightarrow> Expr list" where
  "getIdxVars idxVarsMap lastIterator includeLastIdxVar =
     rev ((if includeLastIdxVar then [idxVarsMap lastIterator] else []) @
          map idxVarsMap (parents lastIterator))"

text \<open>\<^verbatim>\<open>iterator.getParent().getPosVar()\<close>: a null dereference when the iterator has
  no parent.\<close>

definition parentPosVar :: "Iterator \<Rightarrow> error + Expr" where
  "parentPosVar it = (case getParent it of None \<Rightarrow> Inl UndefinedBehaviour
                                        | Some p \<Rightarrow> Inr (getPosVar p))"

text \<open>\<^verbatim>\<open>noneExhausted\<close>: the conjunction of \<^verbatim>\<open>iteratorVar < endVar\<close> over the
  iterators that are not full, and that comparison for the first iterator when all are
  full.\<close>

definition noneExhausted :: "Env \<Rightarrow> Iterator list \<Rightarrow> error + Expr" where
  "noneExhausted env its =
     (if its = [] then Inl InternalError
      else
        let stepIterLqEnd =
              map (\<lambda>iter. Lt (getIteratorVar iter) (getEndVar iter))
                  (filter (\<lambda>iter. \<not> isFull iter) its)
        in Inr (if stepIterLqEnd \<noteq> [] then conjunction (tools env) stepIterLqEnd
                else Lt (getIteratorVar (hd its)) (getEndVar (hd its))))"

text \<open>\<^verbatim>\<open>allEqualTo\<close>.\<close>

definition allEqualTo :: "Env \<Rightarrow> Iterator list \<Rightarrow> Expr \<Rightarrow> Expr" where
  "allEqualTo env its idx =
     (if its = [] then BoolLiteral True
      else conjunction (tools env) (map (\<lambda>iter. Eq (getIdxVar iter) idx) its))"

text \<open>\<^verbatim>\<open>allValidDerefs\<close>.\<close>

definition allValidDerefs :: "Env \<Rightarrow> Iterator list \<Rightarrow> Iterator set \<Rightarrow> Expr" where
  "allValidDerefs env its guardedIters =
     (let iterValid = map getValidVar (filter (\<lambda>iter. iter \<in> guardedIters) its)
      in if iterValid = [] then BoolLiteral True else conjunction (tools env) iterValid)"

text \<open>\<^verbatim>\<open>indicatorMask\<close>: the loop over \<^verbatim>\<open>i\<close> and \<^verbatim>\<open>b\<close>, both
  \<^verbatim>\<open>unsigned long long\<close>, with \<^verbatim>\<open>b *= 2\<close> after each round.\<close>

fun indicatorMask_loop ::
  "Iterator list \<Rightarrow> Iterator list \<Rightarrow> 64 word \<Rightarrow> 64 word \<Rightarrow> 64 word" where
  "indicatorMask_loop [] selected b m = m"
| "indicatorMask_loop (it # rest) selected b m =
     indicatorMask_loop rest selected (b * 2)
       (m OR (b * (if it \<in> set selected then 1 else 0)))"

definition indicatorMask :: "Iterator list \<Rightarrow> Iterator list \<Rightarrow> Expr" where
  "indicatorMask its selected = UIntLiteral (unat (indicatorMask_loop its selected 1 0))"

text \<open>\<^verbatim>\<open>removeIterator\<close>.\<close>

definition removeIterator :: "Expr \<Rightarrow> Iterator list \<Rightarrow> Iterator list" where
  "removeIterator idx its = filter (\<lambda>iterator. getIdxVar iterator \<noteq> idx) its"

text \<open>\<^verbatim>\<open>util::remove(vector, filter)\<close>: the elements of the vector that are not in the
  filter.\<close>

definition util_remove :: "'a list \<Rightarrow> 'a list \<Rightarrow> 'a list" where
  "util_remove xs ys = filter (\<lambda>x. x \<notin> set ys) xs"

text \<open>
  \<^verbatim>\<open>createIfStatements\<close>. The loop sorts the cases into the one whose condition is the
  literal \<^verbatim>\<open>true\<close> and the others; a second literal-true case fails the assertion
  "there should only be one true case".
\<close>

fun splitCases ::
  "(Expr \<times> Stmt) list \<Rightarrow> (Expr \<times> Stmt) list \<times> (Expr \<times> Stmt) option \<Rightarrow>
   error + ((Expr \<times> Stmt) list \<times> (Expr \<times> Stmt) option)" where
  "splitCases [] acc = Inr acc"
| "splitCases (cas # rest) (ifCases, elseCase) =
     (if fst cas = BoolLiteral True then
        (if elseCase \<noteq> None then Inl InternalError
         else splitCases rest (ifCases, Some cas))
      else splitCases rest (ifCases @ [cas], elseCase))"

text \<open>\<^verbatim>\<open>isa<ir::Literal>(e) && to<ir::Literal>(e)->bool_value\<close>: reading
  \<^verbatim>\<open>bool_value\<close> of a literal of another type is not defined by lower.cpp.\<close>

fun isLiteralTrue :: "Expr \<Rightarrow> error + bool" where
  "isLiteralTrue (BoolLiteral b) = Inr b"
| "isLiteralTrue (IntLiteral i) = Inl UndefinedBehaviour"
| "isLiteralTrue (UIntLiteral n) = Inl UndefinedBehaviour"
| "isLiteralTrue FloatZero = Inl UndefinedBehaviour"
| "isLiteralTrue e = Inr False"

definition createIfStatements ::
  "(Expr \<times> Stmt) list \<Rightarrow> MergeLattice \<Rightarrow> Expr \<Rightarrow> error + Stmt" where
  "createIfStatements cases lattice switchExpr =
     bind (if length cases = 1 then isLiteralTrue (fst (hd cases)) else Inr False) (\<lambda>single.
       if single then Inr (snd (hd cases))
       else
         bind (splitCases cases ([], None)) (\<lambda>(ifCases, elseCase).
           case elseCase of
             Some c \<Rightarrow> Inr (Case (ifCases @ [c]) True)
           | None \<Rightarrow>
               Inr (if switchExpr \<noteq> UndefExpr then Switch ifCases switchExpr
                    else Case ifCases (isLatticeFull lattice))))"

subsection \<open>emitAvailableExprs and emitComputeExpr\<close>

text \<open>The loop of \<^verbatim>\<open>emitAvailableExprs\<close> over the available expressions. A
  \<^verbatim>\<open>TensorVar\<close> made here is a new key of the temporaries map, so the insertion
  always adds.\<close>

fun emitAvailableExprs_loop ::
  "Env \<Rightarrow> IndexVar \<Rightarrow> IndexExpr list \<Rightarrow>
   (IndexExpr \<times> IndexExpr) list \<times> Stmt list \<times> Ctx \<Rightarrow>
   (IndexExpr \<times> IndexExpr) list \<times> Stmt list \<times> Ctx" where
  "emitAvailableExprs_loop env indexVar [] acc = acc"
| "emitAvailableExprs_loop env indexVar (availExpr # rest) (substitutions, stmts, ctx) =
     (let t = TensorVar (''t'' @ getName indexVar) (getDataType (tools env) availExpr)
                UndefAssignment;
          tensorVarExpr = Var (getTensorName t) (getDataType (tools env) availExpr);
          ctx' = ctx\<lparr>temporaries := temporaries ctx @ [(t, tensorVarExpr)]\<rparr>;
          expr = lowerToScalarExpression (tools env) availExpr (iterators ctx')
                   (iterationGraph ctx') (temporaries ctx')
      in emitAvailableExprs_loop env indexVar rest
           (substitutions @ [(availExpr, AccessNode t [])],
            stmts @ [VarAssign tensorVarExpr expr True], ctx'))"

definition emitAvailableExprs ::
  "Env \<Rightarrow> IndexVar \<Rightarrow> IndexExpr \<Rightarrow> Ctx \<Rightarrow> Stmt list \<Rightarrow> IndexExpr \<times> Ctx \<times> Stmt list" where
  "emitAvailableExprs env indexVar indexExpr ctx stmts =
     (let visited = getAncestors (iterationGraph ctx) indexVar;
          availExprs = getAvailableExpressions (tools env) indexExpr visited;
          (substitutions, stmts', ctx') =
             emitAvailableExprs_loop env indexVar availExprs ([], stmts, ctx)
      in (replace (tools env) indexExpr substitutions, ctx', stmts'))"

definition emitComputeExpr ::
  "Env \<Rightarrow> Target \<Rightarrow> IndexVar \<Rightarrow> IndexExpr \<Rightarrow> Ctx \<Rightarrow> bool \<Rightarrow> Stmt" where
  "emitComputeExpr env target indexVar indexExpr ctx accum =
     (let expr = lowerToScalarExpression (tools env) indexExpr (iterators ctx)
                   (iterationGraph ctx) (temporaries ctx)
      in if target_pos target \<noteq> UndefExpr then
           (if hasReductionVariableAncestor (iterationGraph ctx) indexVar \<or> accum
            then compoundStore (tools env) (target_tensor target) (target_pos target) expr
            else Store (target_tensor target) (target_pos target) expr)
         else
           (if hasReductionVariableAncestor (iterationGraph ctx) indexVar \<or> accum
            then compoundAssign (tools env) (target_tensor target) expr
            else VarAssign (target_tensor target) expr False))"

subsection \<open>The recursive lower: what is emitted before the loops\<close>

text \<open>
  The loop "Emit code to initialize pos variables" over the range iterators of the
  lattice. \<open>iteratorRange\<close> is what one round ties to \<^verbatim>\<open>body\<close>, \<^verbatim>\<open>iterBegin\<close>
  and \<^verbatim>\<open>iterEnd\<close>; the loop leaves \<^verbatim>\<open>iterBegin\<close> and \<^verbatim>\<open>iterEnd\<close> as the
  last iterator set them.
\<close>

definition iteratorRange :: "Env \<Rightarrow> Ctx \<Rightarrow> Iterator \<Rightarrow> error + (Stmt \<times> Expr \<times> Expr)" where
  "iteratorRange env ctx iterator =
     (if hasCoordPosIter iterator then
        bind (parentPosVar iterator) (\<lambda>parentPos.
          Inr (getPosIter (ops env) iterator parentPos))
      else if \<not> hasCoordValIter iterator then Inl InternalError
      else Inr (getCoordIter (ops env) iterator (getIdxVars (idxVars ctx) iterator False)))"

fun initRangeIterators ::
  "Env \<Rightarrow> Ctx \<Rightarrow> bool \<Rightarrow> Iterator list \<Rightarrow> Stmt list \<times> Expr \<times> Expr \<Rightarrow>
   error + (Stmt list \<times> Expr \<times> Expr)" where
  "initRangeIterators env ctx emitMerge [] acc = Inr acc"
| "initRangeIterators env ctx emitMerge (iterator # rest) (code, iterBegin, iterEnd) =
     bind (iteratorRange env ctx iterator)
       (\<lambda>(body, iterBegin', iterEnd').
          initRangeIterators env ctx emitMerge rest
            (code @ ifDefined body @
               (if emitMerge
                then [VarAssign (getIteratorVar iterator) iterBegin' True,
                      VarAssign (getEndVar iterator) iterEnd' True]
                else []),
             iterBegin', iterEnd'))"

text \<open>
  The \<^verbatim>\<open>while (initIterator.defined() && initIterator.hasInsert())\<close> loop of the
  assembly initialization. \<open>initStep\<close> is the position of the step in the result path.
  It returns the iterator at which the loop stopped (\<open>None\<close>: the undefined iterator).
\<close>

function initInsertLevels ::
  "Env \<Rightarrow> Ctx \<Rightarrow> TensorPath \<Rightarrow> nat \<Rightarrow> Iterator option \<Rightarrow> Stmt list \<times> Expr \<times> Expr \<Rightarrow>
   error + (Stmt list \<times> Iterator option \<times> Expr \<times> Expr)" where
  "initInsertLevels env ctx resultPath initStep initIterator (code, initBegin, initEnd) =
     (case initIterator of
        None \<Rightarrow> Inr (code, None, initBegin, initEnd)
      | Some it \<Rightarrow>
          if \<not> hasInsert it then Inr (code, Some it, initBegin, initEnd)
          else
            let initBegin' = simplify (tools env) (Mul initBegin (getSize it));
                initEnd' = simplify (tools env) (Mul initEnd (getSize it));
                code' = code @ ifDefined (getInsertInitCoords (ops env) it initBegin' initEnd')
            in if Suc initStep = getPathSize resultPath
               then Inr (code', None, initBegin', initEnd')
               else if Suc initStep < getPathSize resultPath
               then initInsertLevels env ctx resultPath (Suc initStep)
                      (Some (lookup (iterators ctx) (Step resultPath (Suc initStep))))
                      (code', initBegin', initEnd')
               else Inl UndefinedBehaviour)"
  by pat_completeness auto
termination
  by (relation "measure (\<lambda>(env, ctx, resultPath, initStep, rest). getPathSize resultPath - initStep)")
     auto

text \<open>The position of a defined step in its path.\<close>

fun stepIndex :: "TensorPathStep \<Rightarrow> nat" where
  "stepIndex (Step p i) = i"
| "stepIndex UndefStep = 0"

text \<open>
  The block \<^verbatim>\<open>if (emitAssemble && resultIterator.defined())\<close> before the loops.
  \<open>resultStep\<close> is a step of the result path, so the path is not empty and
  \<^verbatim>\<open>resultPath.getStep(0)\<close> is its first step.
\<close>

definition initResultAssembly ::
  "Env \<Rightarrow> Ctx \<Rightarrow> Target \<Rightarrow> IndexVar \<Rightarrow> TensorPath \<Rightarrow> TensorPathStep \<Rightarrow> Iterator \<Rightarrow> bool \<Rightarrow>
   error + Stmt list" where
  "initResultAssembly env ctx target indexVar resultPath resultStep resultIterator emitCompute =
     (let code1 = (if hasAppend resultIterator \<and> \<not> isBranchless resultIterator
                   then [VarAssign (getBeginVar resultIterator) (getPosVar resultIterator) True]
                   else [])
      in case getParent resultIterator of
           None \<Rightarrow> Inl UndefinedBehaviour
         | Some resultParent \<Rightarrow>
             if hasAppend resultParent \<or> resultStep = Step resultPath 0 then
               let resultParentPos = getPosVar resultParent;
                   initBegin = resultParentPos;
                   initEnd = simplify (tools env) (Add resultParentPos (IntLiteral 1))
               in bind (initInsertLevels env ctx resultPath (stepIndex resultStep)
                          (Some resultIterator) ([], initBegin, initEnd))
                    (\<lambda>(code2, initIterator, initBegin', initEnd').
                       case initIterator of
                         Some it \<Rightarrow>
                           if \<not> hasAppend it then Inl InternalError
                           else Inr (code1 @ code2 @
                                  ifDefined (getAppendInitEdges (ops env) it initBegin' initEnd'))
                       | None \<Rightarrow>
                           if emitCompute \<and> resultStep \<noteq> Step resultPath 0 then
                             let resultTensor = getTensor resultIterator;
                                 vals = GetProperty resultTensor Values;
                                 newCapacity = Mul (IntLiteral 2) initEnd';
                                 resizeVals = Allocate vals newCapacity True;
                                 updateCapacity = VarAssign (valsCapacity ctx) newCapacity False;
                                 shouldResize = Lte (valsCapacity ctx) initEnd';
                                 resizeBody = Block [resizeVals, updateCapacity];
                                 maybeResizeVals = IfThenElse shouldResize resizeBody;
                                 nextIdxVars = dropWhile (\<lambda>v. v \<noteq> indexVar)
                                                 (getVariables resultPath)
                             in if needsZero_vars ctx nextIdxVars then
                                  bind (varName resultTensor) (\<lambda>tensorName.
                                    let iterVar = Var (''p'' @ tensorName) TInt;
                                        zeroStmt = Store (target_tensor target) iterVar FloatZero;
                                        zeroLoop = For iterVar initBegin' initEnd' (IntLiteral 1)
                                                     zeroStmt Serial
                                    in Inr (code1 @ code2 @ [maybeResizeVals, zeroLoop]))
                                else Inr (code1 @ code2 @ [maybeResizeVals])
                           else Inr (code1 @ code2))
             else Inr code1)"

text \<open>The store of the segment size after the loops
  ("Emit a store of the segment size to the result pos index").\<close>

definition finishResultAssembly :: "Env \<Rightarrow> bool \<Rightarrow> Iterator option \<Rightarrow> error + Stmt list" where
  "finishResultAssembly env emitAssemble resultIterator =
     (case resultIterator of
        None \<Rightarrow> Inr []
      | Some ri \<Rightarrow>
          if emitAssemble \<and> hasAppend ri \<and> \<not> isBranchless ri then
            bind (parentPosVar ri) (\<lambda>resultParentPos.
              Inr (ifDefined (getAppendEdges (ops env) ri resultParentPos
                                (getBeginVar ri) (getPosVar ri))))
          else Inr [])"

subsection \<open>The recursive lower: one lattice point\<close>

text \<open>
  The local variables of \<^verbatim>\<open>lower\<close> that its loops read. \<open>l_iterationGraph\<close> is the
  copy \<^verbatim>\<open>IterationGraph iterationGraph = ctx.iterationGraph\<close> made on entry.
\<close>

record LowerLocals =
  l_target :: Target
  l_indexVar :: IndexVar
  l_iterationGraph :: IterationGraph
  l_lattice :: MergeLattice
  l_resultPath :: TensorPath
  l_resultStep :: TensorPathStep
  l_resultIterator :: "Iterator option"
  l_accumulate :: bool
  l_emitCompute :: bool
  l_emitAssemble :: bool
  l_emitMerge :: bool
  l_iterBegin :: Expr
  l_iterEnd :: Expr

text \<open>The local variables of the loop over the lattice points that the loop over the
  cases reads.\<close>

record PointLocals =
  p_lpLattice :: MergeLattice
  p_lpRangeIterators :: "Iterator list"
  p_guardedIters :: "Iterator set"
  p_mergeWithSwitch :: bool
  p_idx :: Expr
  p_maybeResizeVals :: Stmt

text \<open>The loop "Emit code to initialize sequential access idx variables".\<close>

fun initSequentialAccess ::
  "Env \<Rightarrow> Ctx \<Rightarrow> Iterator list \<Rightarrow> Stmt list \<times> Iterator set \<Rightarrow>
   error + (Stmt list \<times> Iterator set)" where
  "initSequentialAccess env ctx [] acc = Inr acc"
| "initSequentialAccess env ctx (iterator # rest) (loopBody, guardedIters) =
     bind (if hasCoordPosIter iterator then
             Inr (getPosAccess (ops env) iterator (getPosVar iterator)
                    (getIdxVars (idxVars ctx) iterator False))
           else
             bind (parentPosVar iterator) (\<lambda>parentPos.
               Inr (getCoordAccess (ops env) iterator parentPos
                      (getIdxVars (idxVars ctx) iterator False @ [getIdxVar iterator]))))
       (\<lambda>(body, deref, valid).
          let initDerived = VarAssign (getDerivedVar iterator) (simplify (tools env) deref) True;
              loopBody' = loopBody @ ifDefined body @ [initDerived]
          in if \<not> isLiteral valid then
               initSequentialAccess env ctx rest
                 (loopBody' @ [VarAssign (getValidVar iterator) valid True],
                  insert iterator guardedIters)
             else if valid = BoolLiteral True then
               initSequentialAccess env ctx rest (loopBody', guardedIters)
             else Inl InternalError)"

text \<open>
  Modelled from the spec: \<^verbatim>\<open>UInt().getNumBits()\<close> (type.h is not among the sources),
  the "word_bits" of section 4.5.2: the number of bits of \<^verbatim>\<open>unsigned int\<close>.
\<close>

definition UInt_getNumBits :: nat where
  "UInt_getNumBits = 32"

text \<open>
  \<^verbatim>\<open>mergeWithSwitch\<close>, from the number \<open>n\<close> of range iterators of the point and the
  number of points of its sub-lattice. \<^verbatim>\<open>1u << n\<close> is a shift of a 32-bit
  \<^verbatim>\<open>unsigned int\<close>: for \<open>n < 32\<close> it is \<open>push_bit n 1\<close>, and for \<open>n = 32\<close>, which the
  two comparisons before it let through, C++ leaves it undefined.
\<close>

definition mergeWithSwitch :: "nat \<Rightarrow> nat \<Rightarrow> error + bool" where
  "mergeWithSwitch n latticeSize =
     (if 2 < n \<and> n \<le> UInt_getNumBits then
        (if n < 32 then Inr (latticeSize = unat (push_bit n (1 :: 32 word) - 1))
         else Inl UndefinedBehaviour)
      else Inr False)"

text \<open>The loop "Emit code to initialize random access pos variables" over the locate
  iterators of the point, followed by the result iterator when it is defined and can
  insert.\<close>

fun initLocate ::
  "Env \<Rightarrow> Ctx \<Rightarrow> Iterator option \<Rightarrow> Iterator list \<Rightarrow> Stmt list \<times> Iterator set \<Rightarrow>
   error + (Stmt list \<times> Iterator set)" where
  "initLocate env ctx resultIterator [] acc = Inr acc"
| "initLocate env ctx resultIterator (iterator # rest) (mergeCode, guardedIters) =
     bind (parentPosVar iterator) (\<lambda>parentPos.
       let (body, deref, valid) =
             getLocate (ops env) iterator parentPos (getIdxVars (idxVars ctx) iterator True);
           initPos = VarAssign (getPosVar iterator) (simplify (tools env) deref) True;
           mergeCode' = mergeCode @ ifDefined body @ [initPos]
       in if \<not> isLiteral valid \<and> Some iterator \<noteq> resultIterator then
            initLocate env ctx resultIterator rest
              (mergeCode' @ [VarAssign (getValidVar iterator) valid True],
               insert iterator guardedIters)
          else if Some iterator = resultIterator \<or> valid = BoolLiteral True then
            initLocate env ctx resultIterator rest (mergeCode', guardedIters)
          else Inl InternalError)"

text \<open>\<^verbatim>\<open>TensorPath::getLastStep\<close>; an empty path has none.\<close>

definition getLastStep :: "TensorPath \<Rightarrow> error + TensorPathStep" where
  "getLastStep p = (if getPathSize p = 0 then Inl UndefinedBehaviour
                    else Inr (Step p (getPathSize p - 1)))"

text \<open>
  "Emit code to resize vals array when simultaneously performing assembly and compute
  and result components are appended": the statement \<^verbatim>\<open>maybeResizeVals\<close>, undefined
  when the condition does not hold. The last step is looked up only when the result
  iterator is defined, so the result path is not empty then.
\<close>

definition maybeResizeVals ::
  "Ctx \<Rightarrow> bool \<Rightarrow> bool \<Rightarrow> Iterator option \<Rightarrow> TensorPathStep \<Rightarrow> TensorPath \<Rightarrow> Stmt" where
  "maybeResizeVals ctx emitCompute emitAssemble resultIterator resultStep resultPath =
     (case resultIterator of
        None \<Rightarrow> UndefStmt
      | Some ri \<Rightarrow>
          if emitCompute \<and> emitAssemble \<and> hasAppend ri \<and> getLastStep resultPath = Inr resultStep
          then
            let resultTensor = getTensor ri;
                vals = GetProperty resultTensor Values;
                resultPos = getPosVar ri;
                newValsEnd = Add resultPos (IntLiteral 1);
                newCapacity = Mul (IntLiteral 2) newValsEnd;
                resizeVals = Allocate vals newCapacity True;
                updateCapacity = VarAssign (valsCapacity ctx) newCapacity False;
                doResize = Block [resizeVals, updateCapacity];
                shouldResize = Lte (valsCapacity ctx) newValsEnd
            in IfThenElse shouldResize doResize
          else UndefStmt)"

text \<open>
  The two loops over the children of the index variable. They differ in the function
  that extracts the child expression (\<^verbatim>\<open>getSubExprOld\<close> when there is one child,
  \<^verbatim>\<open>getSubExpr\<close> otherwise), passed as \<open>subExpr\<close>, and in that the second collects
  \<^verbatim>\<open>childVars\<close>. The state is \<^verbatim>\<open>lqexpr\<close>, \<^verbatim>\<open>caseBody\<close>, \<^verbatim>\<open>childVars\<close> and
  the context.
\<close>

fun lowerChildren ::
  "Env \<Rightarrow> Lower \<Rightarrow> (IndexExpr \<Rightarrow> IndexVar list \<Rightarrow> IndexExpr) \<Rightarrow> LowerLocals \<Rightarrow>
   ComputeCase \<Rightarrow> IndexExpr set \<Rightarrow> IndexVar list \<Rightarrow>
   IndexExpr \<times> Stmt list \<times> IndexExpr list \<times> Ctx \<Rightarrow>
   error + (IndexExpr \<times> Stmt list \<times> IndexExpr list \<times> Ctx)" where
  "lowerChildren env rec subExpr L ivarCase exhausted [] st = Inr st"
| "lowerChildren env rec subExpr L ivarCase exhausted (child # rest)
     (lqexpr, caseBody, childVars, ctx) =
     (if ivarCase = LAST_FREE \<or> ivarCase = BELOW_LAST_FREE then
        let childExpr = subExpr lqexpr (getDescendants (l_iterationGraph L) child)
        in if childExpr = UndefIndexExpr then
             lowerChildren env rec subExpr L ivarCase exhausted rest
               (lqexpr, caseBody, childVars, ctx)
           else
             let t = TensorVar (''t'' @ getName child) (getDataType (tools env) childExpr)
                       UndefAssignment;
                 tensorVarExpr = Var (getTensorName t) (getDataType (tools env) childExpr);
                 ctx' = ctx\<lparr>temporaries := temporaries ctx @ [(t, tensorVarExpr)]\<rparr>;
                 childTarget = \<lparr>target_tensor = tensorVarExpr, target_pos = UndefExpr\<rparr>;
                 caseBody' = caseBody @
                   (if l_emitCompute L then [VarAssign tensorVarExpr FloatZero True] else []);
                 childVar = AccessNode t [];
                 lqexpr' = replace (tools env) lqexpr [(childExpr, childVar)]
             in bind (rec childTarget child childExpr exhausted ctx') (\<lambda>(childCode, ctx'').
                  lowerChildren env rec subExpr L ivarCase exhausted rest
                    (lqexpr', caseBody' @ childCode, childVars @ [childVar], ctx''))
      else
        bind (rec (l_target L) child lqexpr exhausted ctx) (\<lambda>(childCode, ctx').
          lowerChildren env rec subExpr L ivarCase exhausted rest
            (lqexpr, caseBody @ childCode, childVars, ctx')))"

text \<open>The \<^verbatim>\<open>while (resIter.isBranchless())\<close> loop of the assembly step.\<close>

function branchlessWalk ::
  "Env \<Rightarrow> Ctx \<Rightarrow> bool \<Rightarrow> Iterator \<Rightarrow> Stmt list \<Rightarrow> error + Stmt list" where
  "branchlessWalk env ctx emitAssemble resIter assemblyStmts =
     (if \<not> isBranchless resIter then Inr assemblyStmts
      else
        case getParent resIter of
          None \<Rightarrow> Inl UndefinedBehaviour
        | Some par \<Rightarrow>
            let stmts1 = assemblyStmts @
                  (if emitAssemble \<and> hasAppend resIter
                   then ifDefined (getAppendEdges (ops env) resIter (getPosVar par)
                                     (Sub (getPosVar resIter) (IntLiteral 1)) (getPosVar resIter))
                   else [])
            in (case getParent par of
                 None \<Rightarrow> Inr stmts1
               | Some grandpar \<Rightarrow>
                   let stmts2 = stmts1 @
                         (if emitAssemble \<and> hasAppend par
                          then ifDefined (getAppendCoord (ops env) par (getPosVar par)
                                            (idxVars ctx par))
                          else []);
                       stmts3 = stmts2 @
                         (if hasAppend par
                          then [VarAssign (getPosVar par) (Add (getPosVar par) (IntLiteral 1)) False]
                               @ ifDefined (getAppendInitEdges (ops env) par
                                              (Sub (getPosVar par) (IntLiteral 1)) (getPosVar par))
                          else [])
                   in branchlessWalk env ctx emitAssemble par stmts3))"
  by pat_completeness auto
termination
proof (relation "measure (\<lambda>(env, ctx, emitAssemble, resIter, stmts). size resIter)")
  show "wf (measure (\<lambda>(env, ctx, emitAssemble, resIter, stmts). size resIter))" by simp
next
  fix env :: Env and ctx :: Ctx and emitAssemble :: bool and resIter :: Iterator
    and assemblyStmts :: "Stmt list" and par stmts1 grandpar stmts2 stmts3
  assume "getParent resIter = Some par"
  then have "size par < size resIter" by (cases resIter) simp
  then show "((env, ctx, emitAssemble, par, stmts3), env, ctx, emitAssemble, resIter, assemblyStmts)
      \<in> measure (\<lambda>(env, ctx, emitAssemble, resIter, stmts). size resIter)"
    by simp
qed

text \<open>The assembly step of a case (\<^verbatim>\<open>if (resultIterator.defined())\<close>): the statements
  it pushes to the case body.\<close>

definition emitAssembly ::
  "Env \<Rightarrow> Ctx \<Rightarrow> LowerLocals \<Rightarrow> Expr \<Rightarrow> ComputeCase \<Rightarrow> error + Stmt list" where
  "emitAssembly env ctx L idx ivarCase =
     (case l_resultIterator L of
        None \<Rightarrow> Inr []
      | Some resultIterator \<Rightarrow>
          bind (if ivarCase = LAST_FREE then Inr None
                else if Suc (stepIndex (l_resultStep L)) < getPathSize (l_resultPath L)
                then Inr (Some (lookup (iterators ctx)
                                  (Step (l_resultPath L) (Suc (stepIndex (l_resultStep L))))))
                else Inl UndefinedBehaviour)
            (\<lambda>nextResultIterator.
               if (case nextResultIterator of None \<Rightarrow> True | Some n \<Rightarrow> \<not> isBranchless n) then
                 let resultPos = getPosVar resultIterator
                 in bind (if l_emitAssemble L then
                            (if hasAppend resultIterator then
                               Inr (ifDefined (getAppendCoord (ops env) resultIterator resultPos idx))
                             else if \<not> hasInsert resultIterator then Inl InternalError
                             else Inr (ifDefined (getInsertCoord (ops env) resultIterator resultPos
                                         (getIdxVars (idxVars ctx) resultIterator True))))
                          else Inr [])
                      (\<lambda>stmts1.
                         let stmts2 = stmts1 @
                               (if hasAppend resultIterator \<and>
                                   (l_emitAssemble L \<or> ivarCase = LAST_FREE)
                                then [VarAssign resultPos (Add resultPos (IntLiteral 1)) False]
                                else [])
                         in bind (branchlessWalk env ctx (l_emitAssemble L) resultIterator stmts2)
                              (\<lambda>assemblyStmts.
                                 if assemblyStmts \<noteq> [] then
                                   Inr [case nextResultIterator of
                                          Some n \<Rightarrow>
                                            if hasAppend n
                                            then IfThenElse (Lt (getBeginVar n) (getPosVar n))
                                                   (Block assemblyStmts)
                                            else Block assemblyStmts
                                        | None \<Rightarrow> Block assemblyStmts]
                                 else Inr []))
               else Inr []))"

text \<open>
  The body of the loop "Emit one case per lattice point in the sub-lattice rooted at
  lp": the condition and the body of the case of \<open>lq\<close>, and the context as the
  recursive calls leave it.
\<close>

definition lowerCase ::
  "Env \<Rightarrow> Lower \<Rightarrow> LowerLocals \<Rightarrow> PointLocals \<Rightarrow> MergeLatticePoint \<Rightarrow> Ctx \<Rightarrow>
   error + ((Expr \<times> Stmt) \<times> Ctx)" where
  "lowerCase env rec L P lq ctx =
     (let lqIterators = getIterators lq;
          lqRangeIterators = getRangeIterators lq;
          lqLocateIterators = util_remove lqIterators lqRangeIterators;
          lqexpr = getExpr lq;
          exhausted = exhaustedAccesses (tools env) lq (l_lattice L);
          caseBody0 = (if p_maybeResizeVals P \<noteq> UndefStmt \<and> getLatticeSize (p_lpLattice P) = 1
                       then [p_maybeResizeVals P] else []);
          ivarCase = getComputeCase (l_indexVar L) (l_iterationGraph L);
          (lqexpr1, ctx1, caseBody1) =
             (if l_emitCompute L \<and> ABOVE_LAST_FREE = ivarCase
              then emitAvailableExprs env (l_indexVar L) lqexpr ctx caseBody0
              else (lqexpr, ctx, caseBody0));
          children = getChildren (l_iterationGraph L) (l_indexVar L)
      in bind
           (if length children = 1 then
              bind (lowerChildren env rec (getSubExprOld (tools env)) L ivarCase exhausted
                      children (lqexpr1, caseBody1, [], ctx1))
                (\<lambda>(lqexpr2, caseBody2, childVars, ctx2).
                   Inr (caseBody2 @
                          (if l_emitCompute L \<and>
                              (ivarCase = LAST_FREE \<or> ivarCase = BELOW_LAST_FREE)
                           then [emitComputeExpr env (l_target L) (l_indexVar L) lqexpr2 ctx2
                                   (l_accumulate L)]
                           else []),
                        ctx2))
            else
              bind (lowerChildren env rec (getSubExpr (tools env)) L ivarCase exhausted
                      children (lqexpr1, caseBody1, [], ctx1))
                (\<lambda>(lqexpr2, caseBody2, childVars, ctx2).
                   if l_emitCompute L \<and> (ivarCase = LAST_FREE \<or> ivarCase = BELOW_LAST_FREE)
                   then
                     let currentExprs = getAvailableExpressions (tools env) lqexpr2
                                          (getAncestors (l_iterationGraph L) (l_indexVar L));
                         factors = currentExprs @ childVars
                     in if factors = [] then Inl InternalError
                        else
                          let expr = foldl MulNode (hd factors) (tl factors)
                          in Inr (caseBody2 @
                                    [emitComputeExpr env (l_target L) (l_indexVar L) expr ctx2
                                       (l_accumulate L)],
                                  ctx2)
                   else Inr (caseBody2, ctx2)))
           (\<lambda>(caseBody3, ctx3).
              bind (emitAssembly env ctx3 L (p_idx P) ivarCase) (\<lambda>assembly.
                let caseBody = caseBody3 @ assembly;
                    caseIterators = removeIterator (p_idx P) lqRangeIterators;
                    cond = (if p_mergeWithSwitch P
                            then indicatorMask (p_lpRangeIterators P) caseIterators
                            else simplify (tools env)
                                   (And (allEqualTo env caseIterators (p_idx P))
                                        (allValidDerefs env lqLocateIterators (p_guardedIters P))))
                in Inr ((cond, Block caseBody), ctx3))))"

fun lowerCases ::
  "Env \<Rightarrow> Lower \<Rightarrow> LowerLocals \<Rightarrow> PointLocals \<Rightarrow> MergeLatticePoint list \<Rightarrow>
   (Expr \<times> Stmt) list \<times> Ctx \<Rightarrow> error + ((Expr \<times> Stmt) list \<times> Ctx)" where
  "lowerCases env rec L P [] acc = Inr acc"
| "lowerCases env rec L P (lq # rest) (cases, ctx) =
     bind (lowerCase env rec L P lq ctx) (\<lambda>(cas, ctx').
       lowerCases env rec L P rest (cases @ [cas], ctx'))"

text \<open>"Emit code to increment sequential access pos variables": the statements pushed
  when merging.\<close>

definition incrementIterators :: "Env \<Rightarrow> bool \<Rightarrow> Iterator list \<Rightarrow> Expr \<Rightarrow> Expr \<Rightarrow> Stmt list" where
  "incrementIterators env mws lpRangeIterators idx ind =
     (if mws then
        map (\<lambda>i. let iterator = lpRangeIterators ! i;
                     ivar = getIteratorVar iterator;
                     cmpExpr = Neq (BitAnd ind (UIntLiteral (2 ^ i))) (UIntLiteral 0);
                     incExpr = Cast cmpExpr (exprType (tools env) ivar)
                 in VarAssign ivar (Add ivar incExpr) False)
            [0 ..< length lpRangeIterators]
      else
        map (\<lambda>iterator.
               let ivar = getIteratorVar iterator;
                   incExpr = (if getIdxVar iterator = idx \<or> isFull iterator then IntLiteral 1
                              else Cast (Eq (getIdxVar iterator) idx) (exprType (tools env) ivar))
               in VarAssign ivar (Add ivar incExpr) False)
            lpRangeIterators)"

text \<open>"Emit loop (while loop for merges and for loop for non-merges)".\<close>

definition mergeLoop ::
  "Env \<Rightarrow> LowerLocals \<Rightarrow> Iterator list \<Rightarrow> Ctx \<Rightarrow> Stmt \<Rightarrow> error + Stmt" where
  "mergeLoop env L lpRangeIterators ctx mergeLoopBody =
     (if l_emitMerge L then
        bind (noneExhausted env lpRangeIterators) (\<lambda>cond. Inr (While cond mergeLoopBody))
      else
        case lpRangeIterators of
          [] \<Rightarrow> Inl UndefinedBehaviour
        | iter # rest \<Rightarrow>
            bind (doParallelize (l_indexVar L) (getTensor iter) ctx) (\<lambda>kind.
              Inr (For (getIteratorVar iter) (l_iterBegin L) (l_iterEnd L) (IntLiteral 1)
                     mergeLoopBody kind)))"

text \<open>"Associate merged index variable with merged iterators".\<close>

definition bindIdx :: "(Iterator \<Rightarrow> Expr) \<Rightarrow> Iterator list \<Rightarrow> Iterator option \<Rightarrow> Expr \<Rightarrow> Iterator \<Rightarrow> Expr" where
  "bindIdx idxVarsMap lpIterators resultIterator idx =
     (let m = foldl (\<lambda>m iterator. m(iterator := idx)) idxVarsMap lpIterators
      in case resultIterator of None \<Rightarrow> m | Some ri \<Rightarrow> m(ri := idx))"

text \<open>
  The body of the loop "Emit one loop per lattice point lp": everything that goes into
  \<^verbatim>\<open>loopBody\<close>, in the order of the source, and the context as the cases leave it.
\<close>

definition lowerPointBody ::
  "Env \<Rightarrow> Lower \<Rightarrow> LowerLocals \<Rightarrow> MergeLatticePoint \<Rightarrow> Ctx \<Rightarrow> error + (Stmt list \<times> Ctx)" where
  "lowerPointBody env rec L lp ctx =
     (let lpLattice = getSubLattice (tools env) (l_lattice L) lp;
          lpIterators = getIterators lp;
          lpRangeIterators = getRangeIterators lp;
          lpLocateIterators = util_remove lpIterators lpRangeIterators
      in bind (initSequentialAccess env ctx lpRangeIterators ([], {})) (\<lambda>(loopBody, guarded1).
         bind (mergeWithSwitch (length lpRangeIterators) (getLatticeSize lpLattice)) (\<lambda>mws.
           let (mergeCode1, idx, ind) =
                 (if mws
                  then minWithIndicator (tools env) (getName (l_indexVar L)) lpRangeIterators
                  else (case minExpr (tools env) (getName (l_indexVar L)) lpRangeIterators of
                          (stmts, e) \<Rightarrow> (stmts, e, UndefExpr)));
               ctx1 = ctx\<lparr>idxVars := bindIdx (idxVars ctx) lpIterators (l_resultIterator L) idx\<rparr>;
               located = lpLocateIterators @
                 (case l_resultIterator L of
                    None \<Rightarrow> []
                  | Some ri \<Rightarrow> if hasInsert ri then [ri] else [])
           in bind (initLocate env ctx1 (l_resultIterator L) located (mergeCode1, guarded1))
                (\<lambda>(mergeCode2, guardedIters).
                   let mergeCode3 = mergeCode2 @
                         map (\<lambda>iterator. VarAssign (getSegendVar iterator)
                                           (Add (getPosVar iterator) (IntLiteral 1)) True)
                             (filter (\<lambda>iterator. hasCoordPosIter iterator \<and> \<not> isUnique iterator)
                                     lpRangeIterators);
                       resize = maybeResizeVals ctx1 (l_emitCompute L) (l_emitAssemble L)
                                  (l_resultIterator L) (l_resultStep L) (l_resultPath L);
                       mergeCode4 = mergeCode3 @
                         (if resize \<noteq> UndefStmt \<and> getLatticeSize lpLattice > 1
                          then [resize] else []);
                       P = \<lparr>p_lpLattice = lpLattice, p_lpRangeIterators = lpRangeIterators,
                            p_guardedIters = guardedIters, p_mergeWithSwitch = mws,
                            p_idx = idx, p_maybeResizeVals = resize\<rparr>
                   in bind (lowerCases env rec L P (getPoints lpLattice) ([], ctx1))
                        (\<lambda>(cases, ctx2).
                           bind (createIfStatements cases lpLattice ind) (\<lambda>ifStmt.
                             Inr (loopBody @ mergeCode4 @ [ifStmt] @
                                    (if l_emitMerge L
                                     then incrementIterators env mws lpRangeIterators idx ind
                                     else []),
                                  ctx2)))))))"

definition lowerPoint ::
  "Env \<Rightarrow> Lower \<Rightarrow> LowerLocals \<Rightarrow> MergeLatticePoint \<Rightarrow> Ctx \<Rightarrow> error + (Stmt \<times> Ctx)" where
  "lowerPoint env rec L lp ctx =
     bind (lowerPointBody env rec L lp ctx) (\<lambda>(loopBody, ctx').
       bind (mergeLoop env L (getRangeIterators lp) ctx' (Block loopBody)) (\<lambda>mergeLoop.
         Inr (mergeLoop, ctx')))"

fun lowerPoints ::
  "Env \<Rightarrow> Lower \<Rightarrow> LowerLocals \<Rightarrow> MergeLatticePoint list \<Rightarrow> Stmt list \<times> Ctx \<Rightarrow>
   error + (Stmt list \<times> Ctx)" where
  "lowerPoints env rec L [] acc = Inr acc"
| "lowerPoints env rec L (lp # rest) (loops, ctx) =
     bind (lowerPoint env rec L lp ctx) (\<lambda>(loop, ctx').
       lowerPoints env rec L rest (loops @ [loop], ctx'))"

subsection \<open>The recursive lower\<close>

text \<open>\<^verbatim>\<open>emitMerge\<close>: \<^verbatim>\<open>latticeRangeIterators[0]\<close> is read when the lattice has at
  most one range iterator, and does not exist when it has none.\<close>

definition emitMergeOf :: "Iterator list \<Rightarrow> error + bool" where
  "emitMergeOf latticeRangeIterators =
     (if length latticeRangeIterators > 1 then Inr True
      else case latticeRangeIterators of
             [] \<Rightarrow> Inl UndefinedBehaviour
           | it # rest \<Rightarrow> Inr (\<not> isUnique it))"

text \<open>
  The local variables that \<^verbatim>\<open>lower\<close> sets before its first loop: the merge lattice,
  the result path, step and iterator, and the three flags read from the properties.
  \<^verbatim>\<open>emitMerge\<close>, \<^verbatim>\<open>iterBegin\<close> and \<^verbatim>\<open>iterEnd\<close> are set afterwards.
\<close>

definition lowerLocals :: "Env \<Rightarrow> Target \<Rightarrow> IndexVar \<Rightarrow> IndexExpr \<Rightarrow> Ctx \<Rightarrow> LowerLocals" where
  "lowerLocals env target indexVar indexExpr ctx =
     (let graph = iterationGraph ctx;
          resultPath = getResultTensorPath graph;
          resultStep = getStepOf resultPath indexVar
      in \<lparr>l_target = target, l_indexVar = indexVar, l_iterationGraph = graph,
          l_lattice = makeLattice (tools env) indexExpr indexVar (iterationGraph ctx)
                        (iterators ctx),
          l_resultPath = resultPath, l_resultStep = resultStep,
          l_resultIterator = (if resultStep \<noteq> UndefStep
                              then Some (lookup (iterators ctx) resultStep) else None),
          l_accumulate = (Accumulate \<in> properties ctx),
          l_emitCompute = (Compute \<in> properties ctx),
          l_emitAssemble = (Assemble \<in> properties ctx),
          l_emitMerge = False, l_iterBegin = UndefExpr, l_iterEnd = UndefExpr\<rparr>)"

text \<open>
  One call of the static \<^verbatim>\<open>lower(target, indexVar, indexExpr, exhausted, ctx)\<close>, with
  its recursive calls made through \<open>rec\<close>. The parameter \<^verbatim>\<open>exhausted\<close> is not read:
  the loop over the cases declares its own.
\<close>

definition lower_body ::
  "Env \<Rightarrow> Lower \<Rightarrow> Target \<Rightarrow> IndexVar \<Rightarrow> IndexExpr \<Rightarrow> IndexExpr set \<Rightarrow> Ctx \<Rightarrow>
   error + (Stmt list \<times> Ctx)" where
  "lower_body env rec target indexVar indexExpr exhausted ctx =
     (let L0 = lowerLocals env target indexVar indexExpr ctx;
          latticeRangeIterators = getLatticeRangeIterators (l_lattice L0)
      in bind (emitMergeOf latticeRangeIterators) (\<lambda>emitMerge.
         bind (initRangeIterators env ctx emitMerge latticeRangeIterators
                 ([], UndefExpr, UndefExpr)) (\<lambda>(code1, iterBegin, iterEnd).
         bind (case l_resultIterator L0 of
                 Some ri \<Rightarrow>
                   if l_emitAssemble L0
                   then initResultAssembly env ctx target indexVar (l_resultPath L0)
                          (l_resultStep L0) ri (l_emitCompute L0)
                   else Inr []
               | None \<Rightarrow> Inr []) (\<lambda>code2.
         bind (lowerPoints env rec
                 (L0\<lparr>l_emitMerge := emitMerge, l_iterBegin := iterBegin, l_iterEnd := iterEnd\<rparr>)
                 (getPoints (l_lattice L0)) ([], ctx)) (\<lambda>(loops, ctx').
         bind (finishResultAssembly env (l_emitAssemble L0) (l_resultIterator L0)) (\<lambda>code3.
           Inr (code1 @ code2 @ loops @ code3, ctx')))))))"

text \<open>
  The recursion follows the children of the iteration graph, which the graph gives as
  a function, so the model counts the depth it may still descend: with no depth left
  the answer is \<open>OutOfFuel\<close>.
\<close>

fun lower :: "nat \<Rightarrow> Env \<Rightarrow> Lower" where
  "lower 0 env target indexVar indexExpr exhausted ctx = Inl OutOfFuel"
| "lower (Suc depth) env target indexVar indexExpr exhausted ctx =
     lower_body env (lower depth env) target indexVar indexExpr exhausted ctx"

subsection \<open>The top-level driver\<close>

text \<open>\<^verbatim>\<open>Literal::equalsScalar\<close> (ir.h is not among the sources): whether the literal
  holds the given number.\<close>

fun equalsScalar :: "Expr \<Rightarrow> int \<Rightarrow> bool" where
  "equalsScalar (IntLiteral i) x = (i = x)"
| "equalsScalar (UIntLiteral n) x = (int n = x)"
| "equalsScalar (BoolLiteral b) x = ((if b then 1 else 0) = x)"
| "equalsScalar FloatZero x = (x = 0)"
| "equalsScalar e x = False"

text \<open>
  The functions the driver calls to set up the lowering (lower_codegen.h,
  iteration_graph.h and iterators.h are not among the sources): \<^verbatim>\<open>getTensorVars\<close>
  gives the parameters, the results and the map from tensor variables to IR variables.
\<close>

record Setup =
  getTensorVars :: "TensorVar \<Rightarrow> Expr list \<times> Expr list \<times> (TensorVar \<times> Expr) list"
  makeIterationGraph :: "TensorVar \<Rightarrow> IterationGraph"
  makeIterators :: "IterationGraph \<Rightarrow> (TensorVar \<times> Expr) list \<Rightarrow> Iterators"

text \<open>\<^verbatim>\<open>isa<AddNode>(assignment.getOperator().ptr)\<close>.\<close>

fun isAddNode :: "IndexExpr \<Rightarrow> bool" where
  "isAddNode (AddNode a b) = True"
| "isAddNode e = False"

text \<open>The first loop over the variables of the result path: the level
  initializations, the initializations of the position variables, and the size
  \<^verbatim>\<open>prevSz\<close>.\<close>

fun initResultLevels ::
  "Env \<Rightarrow> Ctx \<Rightarrow> TensorPath \<Rightarrow> bool \<Rightarrow> IndexVar list \<Rightarrow> Stmt list \<times> Stmt list \<times> Expr \<Rightarrow>
   Stmt list \<times> Stmt list \<times> Expr" where
  "initResultLevels env ctx resultPath emitAssemble [] acc = acc"
| "initResultLevels env ctx resultPath emitAssemble (indexVar # rest) (init, body, prevSz) =
     (let iter = lookup (iterators ctx) (getStepOf resultPath indexVar);
          sz = (if hasAppend iter then IntLiteral 0
                else simplify (tools env) (Mul prevSz (getSize iter)));
          init' = init @
            (if emitAssemble
             then ifDefined (if hasAppend iter
                             then getAppendInitLevel (ops env) iter prevSz sz
                             else getInsertInitLevel (ops env) iter prevSz sz)
             else []);
          body' = body @
            (if hasAppend iter \<and> (emitAssemble \<or> indexVar = last (getVariables resultPath))
             then [VarAssign (getPosVar iter) (IntLiteral 0) True]
             else [])
      in initResultLevels env ctx resultPath emitAssemble rest (init', body', sz))"

text \<open>
  "Emit code to zero result value array": the statements pushed to the body by the
  block \<^verbatim>\<open>if (!util::contains(properties, Accumulate))\<close>.
\<close>

definition zeroResultValues ::
  "Ctx \<Rightarrow> Property set \<Rightarrow> TensorPath \<Rightarrow> Iterator \<Rightarrow> Target \<Rightarrow> string \<Rightarrow> Expr \<Rightarrow> int \<Rightarrow>
   error + Stmt list" where
  "zeroResultValues ctx props resultPath resultIterator target tensorName sz allocSz =
     (if Accumulate \<notin> props then
        (if getPathSize resultPath = 0 then
           (if isLiteral sz \<and> equalsScalar sz 1
            then Inr [Store (target_tensor target) (IntLiteral 0) FloatZero]
            else Inl InternalError)
         else if hasInsert resultIterator then
           bind (needsZero ctx) (\<lambda>nz.
             if nz \<and> (\<not> isLiteral sz \<or> \<not> equalsScalar sz allocSz) then
               let iterVar = Var (''p'' @ tensorName) TInt;
                   zeroStmt = Store (target_tensor target) iterVar FloatZero
               in Inr [For iterVar (IntLiteral 0) sz (IntLiteral 1) zeroStmt Serial]
             else Inr [])
         else Inr [])
      else Inr [])"

text \<open>The loop over the roots of the iteration graph.\<close>

fun lowerRoots ::
  "Lower \<Rightarrow> Target \<Rightarrow> IndexExpr \<Rightarrow> IndexVar list \<Rightarrow> Stmt list \<times> Ctx \<Rightarrow>
   error + (Stmt list \<times> Ctx)" where
  "lowerRoots rec target indexExpr [] acc = Inr acc"
| "lowerRoots rec target indexExpr (root # rest) (body, ctx) =
     bind (rec target root indexExpr {} ctx) (\<lambda>(loopNest, ctx').
       lowerRoots rec target indexExpr rest (body @ loopNest, ctx'))"

text \<open>The loop over the variables of the result path that finalizes the levels.\<close>

fun finalizeResultLevels ::
  "Env \<Rightarrow> Ctx \<Rightarrow> TensorPath \<Rightarrow> IndexVar list \<Rightarrow> Stmt list \<times> Expr \<Rightarrow> Stmt list \<times> Expr" where
  "finalizeResultLevels env ctx resultPath [] acc = acc"
| "finalizeResultLevels env ctx resultPath (indexVar # rest) (finalize, prevSz) =
     (let iter = lookup (iterators ctx) (getStepOf resultPath indexVar);
          sz = (if hasAppend iter then getPosVar iter
                else simplify (tools env) (Mul prevSz (getSize iter)));
          finalizeLevel = (if hasAppend iter
                           then getAppendFinalizeLevel (ops env) iter prevSz sz
                           else getInsertFinalizeLevel (ops env) iter prevSz sz)
      in finalizeResultLevels env ctx resultPath rest (finalize @ ifDefined finalizeLevel, sz))"

text \<open>
  "Lower tensor expressions": the branch \<^verbatim>\<open>if (roots.size() > 0)\<close> of the driver. It
  gives \<^verbatim>\<open>init\<close>, \<^verbatim>\<open>body\<close> and \<^verbatim>\<open>finalize\<close>. \<open>props\<close> is the local
  \<^verbatim>\<open>properties\<close> after the driver may have inserted \<^verbatim>\<open>Accumulate\<close>.
\<close>

definition lowerTensorExprs ::
  "Env \<Rightarrow> Lower \<Rightarrow> Ctx \<Rightarrow> Property set \<Rightarrow> string \<Rightarrow> IndexExpr \<Rightarrow> int \<Rightarrow>
   error + (Stmt list \<times> Stmt list \<times> Stmt list)" where
  "lowerTensorExprs env rec ctx props tensorName indexExpr allocSz =
     (let emitAssemble = (Assemble \<in> props);
          emitCompute = (Compute \<in> props);
          roots = getRoots (iterationGraph ctx);
          resultPath = getResultTensorPath (iterationGraph ctx)
      in bind (if getPathSize resultPath > 0
               then bind (getLastStep resultPath) (\<lambda>s. Inr (lookup (iterators ctx) s))
               else Inr (getRoot (iterators ctx) resultPath)) (\<lambda>resultIterator.
         let target = \<lparr>target_tensor = GetProperty (getTensor resultIterator) Values,
                       target_pos = getPosVar resultIterator\<rparr>;
             (init1, body1, prevSz) =
               initResultLevels env ctx resultPath emitAssemble (getVariables resultPath)
                 ([], [], IntLiteral 1);
             valsSize = GetProperty (getTensor resultIterator) ValuesSize;
             sz = (if isLiteral prevSz \<and> equalsScalar prevSz 0
                   then (if emitAssemble then IntLiteral allocSz else valsSize)
                   else prevSz);
             ctx1 = (if emitCompute \<and> emitAssemble
                     then ctx\<lparr>valsCapacity := Var (tensorName @ ''_vals_capacity'') TInt\<rparr>
                     else ctx);
             init2 = init1 @
               (if emitCompute \<and> emitAssemble
                then [VarAssign (valsCapacity ctx1) sz True,
                      Allocate (target_tensor target) sz False]
                else [])
         in bind (if emitCompute
                  then zeroResultValues ctx1 props resultPath resultIterator target tensorName
                         sz allocSz
                  else Inr []) (\<lambda>zero.
            bind (lowerRoots rec target indexExpr roots (body1 @ zero, ctx1)) (\<lambda>(body2, ctx2).
              if emitAssemble then
                let (finalize1, prevSz') =
                      finalizeResultLevels env ctx2 resultPath (getVariables resultPath)
                        ([], IntLiteral 1);
                    valsSize' = GetProperty (getTensor resultIterator) ValuesSize;
                    finalize2 = finalize1 @
                      (if \<not> emitCompute
                       then [Allocate (target_tensor target) prevSz' False,
                             VarAssign valsSize' prevSz' False]
                       else [])
                in Inr (init2, body2, finalize2)
              else Inr (init2, body2, [])))))"

text \<open>"Lower scalar expressions": the branch for an iteration graph without roots.\<close>

definition lowerScalarExprs ::
  "Env \<Rightarrow> Ctx \<Rightarrow> Property set \<Rightarrow> IndexExpr \<Rightarrow> Stmt list \<times> Stmt list \<times> Stmt list" where
  "lowerScalarExprs env ctx props indexExpr =
     (let resultPath = getResultTensorPath (iterationGraph ctx);
          resultTensorVar = getTensor (getRoot (iterators ctx) resultPath);
          vals = GetProperty resultTensorVar Values;
          init = (if Assemble \<in> props then [Allocate vals (IntLiteral 1) False] else []);
          body = (if Compute \<in> props
                  then [Store vals (IntLiteral 0)
                          (lowerToScalarExpression (tools env) indexExpr (iterators ctx)
                             (iterationGraph ctx) [])]
                  else [])
      in (init, body, []))"

text \<open>
  The driver from \<^verbatim>\<open>Schedule schedule = tensorVar.getSchedule()\<close> on, for the property
  set \<open>props\<close> it works with from there.
\<close>

definition lowerWithProperties ::
  "Env \<Rightarrow> Setup \<Rightarrow> Lower \<Rightarrow> TensorVar \<Rightarrow> string \<Rightarrow> Property set \<Rightarrow> int \<Rightarrow> error + Stmt" where
  "lowerWithProperties env setup rec tensorVar functionName props allocSz =
     (let indexExpr = getRhs (getAssignment tensorVar);
          (parameters, results, tensorVars) = getTensorVars setup tensorVar
      in if length results \<noteq> 1 then Inl InternalError
         else
           let graph = makeIterationGraph setup tensorVar;
               ctx = \<lparr>properties = props, iterationGraph = graph,
                      iterators = makeIterators setup graph tensorVars,
                      temporaries = [], idxVars = (\<lambda>it. UndefExpr), valsCapacity = UndefExpr\<rparr>
           in bind (if getRoots (iterationGraph ctx) \<noteq> []
                    then lowerTensorExprs env rec ctx props (getTensorName tensorVar) indexExpr
                           allocSz
                    else Inr (lowerScalarExprs env ctx props indexExpr))
                (\<lambda>(init, body, finalize).
                   let body1 = (if init \<noteq> [] then (init @ [BlankLine]) @ body else body);
                       body2 = (if finalize \<noteq> [] then body1 @ [BlankLine] @ finalize else body1)
                   in Inr (Function functionName results parameters (Block body2))))"

text \<open>
  \<^verbatim>\<open>Stmt lower(TensorVar tensorVar, string functionName, set<Property> properties,
  long long allocSize)\<close>. \<open>depth\<close> bounds the recursion of the static \<^verbatim>\<open>lower\<close>.
\<close>

definition lowerTensorVar ::
  "nat \<Rightarrow> Env \<Rightarrow> Setup \<Rightarrow> TensorVar \<Rightarrow> string \<Rightarrow> Property set \<Rightarrow> int \<Rightarrow> error + Stmt" where
  "lowerTensorVar depth env setup tensorVar functionName props allocSz =
     (let assignment = getAssignment tensorVar;
          emitAssemble = (Assemble \<in> props);
          emitCompute = (Compute \<in> props)
      in if assignment = UndefAssignment then Inl UndefinedBehaviour
         else if \<not> (emitAssemble \<or> emitCompute) then Inl InternalError
         else if \<not> (getOperator assignment = UndefIndexExpr \<or> isAddNode (getOperator assignment))
         then Inl TemporaryError
         else
           lowerWithProperties env setup (lower depth env) tensorVar functionName
             (if isAddNode (getOperator assignment) then insert Accumulate props else props)
             allocSz)"

subsection \<open>isLowerable\<close>

text \<open>Index notation statements: the node set of the statement visitor in lower.cpp.\<close>

datatype IndexStmt =
    AssignmentNode IndexExpr IndexExpr IndexExpr
  | ForallNode IndexVar IndexStmt
  | WhereNode IndexStmt IndexStmt
  | MultiNode IndexStmt IndexStmt
  | SequenceNode IndexStmt IndexStmt

text \<open>
  \<^verbatim>\<open>bool isLowerable(IndexStmt stmt, std::string* reason)\<close>: the result and the
  reason string it leaves. \<^verbatim>\<open>INIT_REASON\<close> clears the reason. The test
  \<^verbatim>\<open>isConcreteNotation\<close> (index_notation.h is not among the sources) is a parameter.
  The check for transpositions is commented out in the source under a \<^verbatim>\<open>TODO\<close>.
\<close>

definition isLowerable :: "(IndexStmt \<Rightarrow> bool) \<Rightarrow> IndexStmt \<Rightarrow> bool \<times> string" where
  "isLowerable isConcreteNotation stmt =
     (if \<not> isConcreteNotation stmt
      then (False, ''The index statement is not in concrete index notation'')
      else (True, ''''))"

subsection \<open>Shapes of emitted loops\<close>


text \<open>
  The conditional resize of the values array: when the capacity is at most
  \<open>posVar + 1\<close>, reallocate the values to \<open>2 * (posVar + 1)\<close> and set the capacity to
  that.
\<close>

definition resizeStmt :: "Ctx \<Rightarrow> Iterator \<Rightarrow> Stmt" where
  "resizeStmt ctx ri =
     IfThenElse (Lte (valsCapacity ctx) (Add (getPosVar ri) (IntLiteral 1)))
       (Block [Allocate (GetProperty (getTensor ri) Values)
                 (Mul (IntLiteral 2) (Add (getPosVar ri) (IntLiteral 1))) True,
               VarAssign (valsCapacity ctx)
                 (Mul (IntLiteral 2) (Add (getPosVar ri) (IntLiteral 1))) False])"


text \<open>The loop that zeroes the values array \<open>vals\<close> of the tensor named \<open>nm\<close> from 0 to
  \<open>sz\<close>.\<close>

definition zeroLoop :: "Expr \<Rightarrow> string \<Rightarrow> Expr \<Rightarrow> Stmt" where
  "zeroLoop vals nm sz =
     For (Var (''p'' @ nm) TInt) (IntLiteral 0) sz (IntLiteral 1)
       (Store vals (Var (''p'' @ nm) TInt) FloatZero) Serial"



subsection \<open>Example inputs\<close>

text \<open>An iterator of tensor \<open>t\<close> for the variable \<open>v\<close>, with the given parent and the
  capabilities full, insert, append, unique and branchless.\<close>

definition exIterator ::
  "string \<Rightarrow> string \<Rightarrow> Iterator option \<Rightarrow> bool \<Rightarrow> bool \<Rightarrow> bool \<Rightarrow> bool \<Rightarrow> bool \<Rightarrow> Expr \<Rightarrow>
   Iterator" where
  "exIterator t v par full ins app uniq branchless sz =
     Iterator par (Var t Float64) (\<not> full) full ins app ins uniq full branchless
       (Var (''p'' @ t @ v) TInt) (Var (t @ v @ ''_end'') TInt) (Var (t @ v @ ''_begin'') TInt)
       (Var (v @ t @ ''_it'') TInt) (Var (v @ t) TInt) (Var (v @ t @ ''_derived'') TInt)
       (Var (t @ v @ ''_valid'') Bool) (Var (t @ v @ ''_segend'') TInt) sz"

definition exRoot :: "string \<Rightarrow> Iterator" where
  "exRoot t = exIterator t ''root'' None True False False True False (IntLiteral 1)"

text \<open>
  The graph of \<open>a(i) = B(i,j,k)\<close> summed over \<open>j\<close> and \<open>k\<close>, nested \<open>i\<close>, \<open>j\<close>, \<open>k\<close>.
\<close>

definition exGraph3 :: IterationGraph where
  "exGraph3 =
     \<lparr>getRoots = [IndexVar ''i''],
      getChildren = (\<lambda>v. if v = IndexVar ''i'' then [IndexVar ''j'']
                          else if v = IndexVar ''j'' then [IndexVar ''k''] else []),
      getAncestors = (\<lambda>v. if v = IndexVar ''i'' then [IndexVar ''i'']
                           else if v = IndexVar ''j'' then [IndexVar ''i'', IndexVar ''j'']
                           else [IndexVar ''i'', IndexVar ''j'', IndexVar ''k'']),
      getDescendants = (\<lambda>v. if v = IndexVar ''i'' then [IndexVar ''i'', IndexVar ''j'', IndexVar ''k'']
                           else if v = IndexVar ''j'' then [IndexVar ''j'', IndexVar ''k'']
                           else [IndexVar ''k'']),
      isReduction = (\<lambda>v. v \<noteq> IndexVar ''i''),
      isLastFreeVariable = (\<lambda>v. v = IndexVar ''i''),
      hasFreeVariableDescendant = (\<lambda>v. False),
      hasReductionVariableAncestor = (\<lambda>v. False),
      getTensorPaths = [TensorPath ''B'' [IndexVar ''i'', IndexVar ''j'', IndexVar ''k'']],
      getResultTensorPath = TensorPath ''a'' [IndexVar ''i'']\<rparr>"

text \<open>The iterators of \<open>exGraph3\<close>: the result level can insert (and is full) when
  \<open>resIns\<close>, and appends otherwise; level \<open>n\<close> of \<open>B\<close> is full (and can insert) when
  the \<open>n\<close>-th entry of \<open>fulls\<close> says so.\<close>

definition exIterators3 :: "bool \<Rightarrow> bool list \<Rightarrow> Iterators" where
  "exIterators3 resIns fulls =
     \<lparr>lookup = (\<lambda>s. case s of
          UndefStep \<Rightarrow> exRoot ''undef''
        | Step p n \<Rightarrow>
            if getAccessName p = ''a''
            then exIterator ''a'' ''i'' (Some (exRoot ''a'')) resIns resIns (\<not> resIns) True False
                   (Var ''a_size'' TInt)
            else exIterator ''B'' (getName (getVariables p ! n)) (Some (exRoot ''B''))
                   (n < length fulls \<and> fulls ! n) (n < length fulls \<and> fulls ! n)
                   False True False (Var ''B_size'' TInt)),
      getRoot = (\<lambda>p. exRoot (getAccessName p))\<rparr>"

definition exCtx3 :: "bool \<Rightarrow> bool list \<Rightarrow> Ctx" where
  "exCtx3 resIns fulls =
     \<lparr>properties = {Compute}, iterationGraph = exGraph3,
      iterators = exIterators3 resIns fulls,
      temporaries = [], idxVars = (\<lambda>it. UndefExpr), valsCapacity = UndefExpr\<rparr>"

text \<open>
  An instance of the functions that lower.cpp takes from its headers, for running the
  model: iterator methods that load bounds and coordinates from arrays, a simplifier
  that folds products with the literals 0 and 1, products of literals and conjunctions
  with the literal true, and expression tools for which an expression is available as a
  whole and has no sub-expression for a child.
\<close>

definition exOps :: IteratorOps where
  "exOps =
     \<lparr>getPosIter = (\<lambda>it parentPos.
        (UndefStmt, Load (Var ''pos_arr'' TInt) parentPos,
         Load (Var ''pos_arr'' TInt) (Add parentPos (IntLiteral 1)))),
      getCoordIter = (\<lambda>it idxs. (UndefStmt, IntLiteral 0, getSize it)),
      getPosAccess = (\<lambda>it p idxs. (UndefStmt, Load (Var ''idx_arr'' TInt) p, BoolLiteral True)),
      getCoordAccess = (\<lambda>it p idxs.
        (UndefStmt, Add (Mul p (getSize it)) (last idxs), BoolLiteral True)),
      getLocate = (\<lambda>it p idxs.
        (UndefStmt, Add (Mul p (getSize it)) (last idxs), BoolLiteral True)),
      getInsertInitCoords = (\<lambda>it b e. UndefStmt),
      getAppendInitEdges = (\<lambda>it b e. UndefStmt),
      getAppendCoord = (\<lambda>it p idx. Store (Var ''idx_arr'' TInt) p idx),
      getInsertCoord = (\<lambda>it p idxs. UndefStmt),
      getAppendEdges = (\<lambda>it p b e. Store (Var ''pos_arr'' TInt) (Add p (IntLiteral 1)) e),
      getAppendInitLevel = (\<lambda>it p sz. UndefStmt),
      getInsertInitLevel = (\<lambda>it p sz. UndefStmt),
      getAppendFinalizeLevel = (\<lambda>it p sz. UndefStmt),
      getInsertFinalizeLevel = (\<lambda>it p sz. UndefStmt)\<rparr>"

definition exSimplify :: "Expr \<Rightarrow> Expr" where
  "exSimplify e =
     (case e of
        Mul x y \<Rightarrow>
          (case x of
             IntLiteral a \<Rightarrow>
               (case y of
                  IntLiteral b \<Rightarrow> IntLiteral (a * b)
                | _ \<Rightarrow> if a = 0 then IntLiteral 0 else if a = 1 then y else e)
           | _ \<Rightarrow> e)
      | And x y \<Rightarrow> (if x = BoolLiteral True then y else if y = BoolLiteral True then x else e)
      | _ \<Rightarrow> e)"

fun exConjunction :: "Expr list \<Rightarrow> Expr" where
  "exConjunction [] = BoolLiteral True"
| "exConjunction [e] = e"
| "exConjunction (e # es) = And e (exConjunction es)"

text \<open>The lattice of a single operand: one point that ranges over the iterator of the
  operand \<open>b\<close> at the variable.\<close>

definition exLattice :: "Iterator \<Rightarrow> IndexExpr \<Rightarrow> MergeLattice" where
  "exLattice it e =
     \<lparr>getPoints = [\<lparr>getIterators = [it], getRangeIterators = [it], getExpr = e\<rparr>],
      getLatticeRangeIterators = [it], isLatticeFull = isFull it\<rparr>"

text \<open>The lattice of a sum of two operands: the point where both are present, then
  the two points where one is.\<close>

definition exLattice2 ::
  "Iterator \<Rightarrow> Iterator \<Rightarrow> IndexExpr \<Rightarrow> IndexExpr \<Rightarrow> IndexExpr \<Rightarrow> MergeLattice" where
  "exLattice2 b c e x y =
     \<lparr>getPoints = [\<lparr>getIterators = [b, c], getRangeIterators = [b, c], getExpr = e\<rparr>,
                   \<lparr>getIterators = [b], getRangeIterators = [b], getExpr = x\<rparr>,
                   \<lparr>getIterators = [c], getRangeIterators = [c], getExpr = y\<rparr>],
      getLatticeRangeIterators = [b, c], isLatticeFull = False\<rparr>"

definition exTools :: Tools where
  "exTools =
     \<lparr>simplify = exSimplify,
      conjunction = exConjunction,
      compoundStore = (\<lambda>a l d. Store a l (Add (Load a l) d)),
      compoundAssign = (\<lambda>a d. VarAssign a (Add a d) False),
      exprType = (\<lambda>e. TInt),
      minExpr = (\<lambda>n its.
        if length its = 1 then ([], getIdxVar (hd its))
        else ([VarAssign (Var n TInt) (getIdxVar (hd its)) True], Var n TInt)),
      minWithIndicator = (\<lambda>n its.
        ([VarAssign (Var n TInt) (getIdxVar (hd its)) True], Var n TInt, Var (n @ ''_ind'') UInt)),
      lowerToScalarExpression = (\<lambda>e its g temps. Load (Var ''b_vals'' Float64) (Var ''pbi'' TInt)),
      getAvailableExpressions = (\<lambda>e vs. [e]),
      getSubExpr = (\<lambda>e vs. UndefIndexExpr),
      getSubExprOld = (\<lambda>e vs. UndefIndexExpr),
      replace = (\<lambda>e subst. e),
      getDataType = (\<lambda>e. Float64),
      makeLattice = (\<lambda>e v g its.
        case e of
          AddNode x y \<Rightarrow>
            exLattice2 (lookup its (Step (getTensorPaths g ! 0) 0))
              (lookup its (Step (getTensorPaths g ! 1) 0)) e x y
        | _ \<Rightarrow> exLattice (lookup its (Step (hd (getTensorPaths g)) 0)) e),
      getSubLattice = (\<lambda>l p.
        l\<lparr>getPoints := filter (\<lambda>q. set (getIterators q) \<subseteq> set (getIterators p))
                           (getPoints l)\<rparr>),
      exhaustedAccesses = (\<lambda>p l. {})\<rparr>"

definition exEnv :: Env where
  "exEnv = \<lparr>ops = exOps, tools = exTools\<rparr>"

text \<open>The graph of an assignment to \<open>a(i)\<close> from the operands with the given
  paths: one root \<open>i\<close> without children.\<close>

definition exGraph1 :: "TensorPath list \<Rightarrow> IterationGraph" where
  "exGraph1 paths =
     \<lparr>getRoots = [IndexVar ''i''],
      getChildren = (\<lambda>v. []),
      getAncestors = (\<lambda>v. [v]),
      getDescendants = (\<lambda>v. [v]),
      isReduction = (\<lambda>v. False),
      isLastFreeVariable = (\<lambda>v. True),
      hasFreeVariableDescendant = (\<lambda>v. False),
      hasReductionVariableAncestor = (\<lambda>v. False),
      getTensorPaths = paths,
      getResultTensorPath = TensorPath ''a'' [IndexVar ''i'']\<rparr>"

definition exPathB :: TensorPath where
  "exPathB = TensorPath ''b'' [IndexVar ''i'']"

definition exPathC :: TensorPath where
  "exPathC = TensorPath ''c'' [IndexVar ''i'']"

text \<open>
  The iterators of \<open>exGraph1\<close>. The level of an operand is compressed, with unique
  coordinates when \<open>uniq\<close>. The level of the result \<open>a\<close> is dense of size \<open>sz\<close> (it
  can insert) when \<open>resDense\<close>, and compressed (it appends) otherwise.
\<close>

definition exIterators1 :: "bool \<Rightarrow> bool \<Rightarrow> Expr \<Rightarrow> Iterators" where
  "exIterators1 resDense uniq sz =
     \<lparr>lookup = (\<lambda>s. case s of
          UndefStep \<Rightarrow> exRoot ''undef''
        | Step p n \<Rightarrow>
            if getAccessName p = ''a''
            then exIterator ''a'' ''i'' (Some (exRoot ''a'')) resDense resDense (\<not> resDense)
                   True False sz
            else exIterator (getAccessName p) ''i'' (Some (exRoot (getAccessName p)))
                   False False False uniq False (Var ''size'' TInt)),
      getRoot = (\<lambda>p. exRoot (getAccessName p))\<rparr>"

definition exCtx1 :: "Property set \<Rightarrow> TensorPath list \<Rightarrow> bool \<Rightarrow> bool \<Rightarrow> Expr \<Rightarrow> Ctx" where
  "exCtx1 props paths resDense uniq sz =
     \<lparr>properties = props, iterationGraph = exGraph1 paths,
      iterators = exIterators1 resDense uniq sz,
      temporaries = [], idxVars = (\<lambda>it. UndefExpr), valsCapacity = Var ''a_vals_capacity'' TInt\<rparr>"

definition exTarget :: Target where
  "exTarget = \<lparr>target_tensor = GetProperty (Var ''a'' Float64) Values,
               target_pos = Var ''pai'' TInt\<rparr>"

definition exB :: IndexExpr where
  "exB = AccessNode (TensorVar ''b'' Float64 UndefAssignment) [IndexVar ''i'']"

definition exC :: IndexExpr where
  "exC = AccessNode (TensorVar ''c'' Float64 UndefAssignment) [IndexVar ''i'']"


text \<open>\<open>a(i) = b(i) + c(i)\<close> assembled and computed into a compressed \<open>a\<close> from
  compressed \<open>b\<close> and \<open>c\<close>.\<close>

definition exCtxSum :: Ctx where
  "exCtxSum = exCtx1 {Compute, Assemble} [exPathB, exPathC] False True (IntLiteral 4)"

text \<open>The local variables of \<open>lower\<close> for \<open>exCtxSum\<close> at the variable \<open>i\<close>, and the
  iterator of the result at \<open>i\<close>.\<close>

definition exLSum :: LowerLocals where
  "exLSum = (lowerLocals exEnv exTarget (IndexVar ''i'') (AddNode exB exC) exCtxSum)
              \<lparr>l_emitMerge := True\<rparr>"

definition exResultIterator :: Iterator where
  "exResultIterator = lookup (iterators exCtxSum) (Step (TensorPath ''a'' [IndexVar ''i'']) 0)"

text \<open>The set-up functions of the driver for a given graph and iterator table, and the
  tensor variable \<open>a\<close> assigned \<open>b(i)\<close> with the operator \<open>operator\<close>.\<close>

definition exSetup :: "IterationGraph \<Rightarrow> Iterators \<Rightarrow> Setup" where
  "exSetup g its =
     \<lparr>getTensorVars = (\<lambda>tv. ([Var ''b'' Float64], [Var (getTensorName tv) Float64], [])),
      makeIterationGraph = (\<lambda>tv. g),
      makeIterators = (\<lambda>g' tvs. its)\<rparr>"

definition exTensorVar :: "IndexExpr \<Rightarrow> TensorVar" where
  "exTensorVar operator =
     TensorVar ''a'' Float64 (Assignment exB [IndexVar ''i''] operator)"





text \<open>A scalar tensor \<open>s\<close> of the given component type with nothing inserted yet.\<close>

definition exScalar :: "ComponentType \<Rightarrow> (int, int) Content" where
  "exScalar ct =
     \<lparr>name = ''s'', dimensions = [], ctype = ct, coordinates = [], format = [],
      storage = \<lparr>getFormat = [], getLevelIndex = [], getValues = None\<rparr>, allocSize = 1\<rparr>"

text \<open>
  An instance of \<^verbatim>\<open>isConcreteNotation\<close> for running the model: a statement is
  accepted when it is an assignment without an operator under any number of foralls.
  The statement \<open>exTransposeStmt\<close> is \<open>forall i. forall j. A(i,j) = B(j,i)\<close>: whatever
  the (common) level order of \<open>A\<close> and \<open>B\<close>, one of them is traversed against it.
\<close>

fun exIsConcrete :: "IndexStmt \<Rightarrow> bool" where
  "exIsConcrete (ForallNode v s) = exIsConcrete s"
| "exIsConcrete (AssignmentNode lhs rhs operator) = (operator = UndefIndexExpr)"
| "exIsConcrete s = False"

definition exTransposeStmt :: IndexStmt where
  "exTransposeStmt =
     ForallNode (IndexVar ''i'') (ForallNode (IndexVar ''j'')
       (AssignmentNode
          (AccessNode (TensorVar ''A'' Float64 UndefAssignment) [IndexVar ''i'', IndexVar ''j''])
          (AccessNode (TensorVar ''B'' Float64 UndefAssignment) [IndexVar ''j'', IndexVar ''i''])
          UndefIndexExpr))"





section \<open>Properties of the front end\<close>

text \<open>
  C9. Every overload of insert raises the user-facing assertion when the coordinate
  vector's length differs from the tensor's order or the value's component type differs
  from the tensor's; otherwise it appends exactly one coordinate (the given location with
  the given value) to the pending coordinates and leaves name, dimensions, format and
  packed storage as they were.
\<close>

theorem insert_checks_then_appends:
  "insert_tb content coord v =
     (if length coord \<noteq> getOrder content \<or> typeOfValue v \<noteq> getComponentType content
      then Inl UserError
      else Inr (content\<lparr>coordinates := coordinates content @ [\<lparr>loc = coord, val = v\<rparr>]\<rparr>))
   \<and> (\<forall>content'. insert_tb content coord v = Inr content' \<longrightarrow>
         coordinates content' = coordinates content @ [\<lparr>loc = coord, val = v\<rparr>]
         \<and> name content' = name content
         \<and> dimensions content' = dimensions content
         \<and> format content' = format content
         \<and> storage content' = storage content)"
  by (cases v)
     (auto simp: insert_int_def insert_float_def insert_double_def insert_bool_def)

theorem insert_checks_then_appends_witness:
  "insert_tb
     \<lparr>name = ''A'', dimensions = [3, 3], ctype = CTDouble, coordinates = [],
      format = [\<lparr>getType = Dense, getDimension = 0\<rparr>, \<lparr>getType = Sparse, getDimension = 1\<rparr>],
      storage = \<lparr>getFormat = [], getLevelIndex = [], getValues = None\<rparr>, allocSize = 1\<rparr>
     [0, 2] (dval (5 :: int) :: (int, int) Value)
   = Inr \<lparr>name = ''A'', dimensions = [3, 3], ctype = CTDouble,
          coordinates = [\<lparr>loc = [0, 2], val = dval 5\<rparr>],
          format = [\<lparr>getType = Dense, getDimension = 0\<rparr>, \<lparr>getType = Sparse, getDimension = 1\<rparr>],
          storage = \<lparr>getFormat = [], getLevelIndex = [], getValues = None\<rparr>, allocSize = 1\<rparr>
   \<and> insert_tb
     \<lparr>name = ''A'', dimensions = [3, 3], ctype = CTDouble, coordinates = [],
      format = [], storage = \<lparr>getFormat = [], getLevelIndex = [], getValues = None\<rparr>,
      allocSize = 1\<rparr>
     [0] (dval (5 :: int) :: (int, int) Value) = Inl UserError
   \<and> insert_tb
     \<lparr>name = ''A'', dimensions = [3, 3], ctype = CTDouble, coordinates = [],
      format = [], storage = \<lparr>getFormat = [], getLevelIndex = [], getValues = None\<rparr>,
      allocSize = 1\<rparr>
     [0, 2] (ival 5 :: (int, int) Value) = Inl UserError"
  using insert_checks_then_appends
    [of "\<lparr>name = ''A'', dimensions = [3, 3], ctype = CTDouble, coordinates = [],
      format = [\<lparr>getType = Dense, getDimension = 0\<rparr>, \<lparr>getType = Sparse, getDimension = 1\<rparr>],
      storage = \<lparr>getFormat = [], getLevelIndex = [], getValues = None\<rparr>, allocSize = 1\<rparr>"
      "[0, 2]" "dval (5 :: int) :: (int, int) Value"]
    insert_checks_then_appends
    [of "\<lparr>name = ''A'', dimensions = [3, 3], ctype = CTDouble, coordinates = [],
      format = [], storage = \<lparr>getFormat = [], getLevelIndex = [], getValues = None\<rparr>,
      allocSize = 1\<rparr>"
      "[0]" "dval (5 :: int) :: (int, int) Value"]
    insert_checks_then_appends
    [of "\<lparr>name = ''A'', dimensions = [3, 3], ctype = CTDouble, coordinates = [],
      format = [], storage = \<lparr>getFormat = [], getLevelIndex = [], getValues = None\<rparr>,
      allocSize = 1\<rparr>"
      "[0, 2]" "ival 5 :: (int, int) Value"]
  by (simp add: getOrder_def getComponentType_def)

section \<open>Properties of the analyses of the lowering engine\<close>

lemma needsZero_paths_iff:
  "needsZero_paths ctx v ps \<longleftrightarrow>
     (\<exists>p \<in> set ps. v \<in> set (getVariables p) \<and>
        \<not> isFull (lookup (iterators ctx) (getStepOf p v)))"
  by (induction ps) auto

lemma needsZero_vars_iff:
  "needsZero_vars ctx vs \<longleftrightarrow>
     (\<exists>v \<in> set vs.
        hasInsert (lookup (iterators ctx) (getStepOf (getResultTensorPath (iterationGraph ctx)) v)) \<and>
        needsZero_paths ctx v (getTensorPaths (iterationGraph ctx)))"
  by (induction vs) auto

text \<open>
  C2. \<open>needsZero ctx\<close> is true exactly when (a) the last index variable of the result
  tensor path has a reduction-variable ancestor, or (b) some result index variable \<open>v\<close>
  has a result-path step that can insert and some input tensor path contains \<open>v\<close> with
  an iterator at \<open>v\<close> that is not full. (On a result path without variables the code
  reads \<^verbatim>\<open>back()\<close> of an empty vector; the driver calls it on non-empty paths only.)
\<close>

theorem needsZero_iff:
  "needsZero ctx =
     (if getVariables (getResultTensorPath (iterationGraph ctx)) = [] then Inl UndefinedBehaviour
      else Inr
        (hasReductionVariableAncestor (iterationGraph ctx)
           (last (getVariables (getResultTensorPath (iterationGraph ctx)))) \<or>
         (\<exists>v \<in> set (getVariables (getResultTensorPath (iterationGraph ctx))).
            hasInsert (lookup (iterators ctx)
              (getStepOf (getResultTensorPath (iterationGraph ctx)) v)) \<and>
            (\<exists>p \<in> set (getTensorPaths (iterationGraph ctx)).
               v \<in> set (getVariables p) \<and>
               \<not> isFull (lookup (iterators ctx) (getStepOf p v))))))"
  by (simp add: needsZero_def Let_def needsZero_vars_iff needsZero_paths_iff)

lemma exCtx3_simps:
  "iterationGraph (exCtx3 b fs) = exGraph3"
  "iterators (exCtx3 b fs) = exIterators3 b fs"
  "properties (exCtx3 b fs) = {Compute}"
  by (simp_all add: exCtx3_def)

lemma exGraph3_simps:
  "getResultTensorPath exGraph3 = TensorPath ''a'' [IndexVar ''i'']"
  "getTensorPaths exGraph3 = [TensorPath ''B'' [IndexVar ''i'', IndexVar ''j'', IndexVar ''k'']]"
  "getAncestors exGraph3 (IndexVar ''i'') = [IndexVar ''i'']"
  "isReduction exGraph3 (IndexVar ''i'') = False"
  "hasReductionVariableAncestor exGraph3 v = False"
  "getRoots exGraph3 = [IndexVar ''i'']"
  by (simp_all add: exGraph3_def)

lemma exIterators3_result:
  "hasInsert (lookup (exIterators3 b fs) (Step (TensorPath ''a'' vs) n)) = b"
  "isFull (lookup (exIterators3 b fs) (Step (TensorPath ''a'' vs) n)) = b"
  by (simp_all add: exIterators3_def exIterator_def)

lemma exIterators3_B:
  "isFull (lookup (exIterators3 b fs) (Step (TensorPath ''B'' vs) n)) = (n < length fs \<and> fs ! n)"
  by (simp add: exIterators3_def exIterator_def)

theorem needsZero_iff_witness:
  "needsZero (exCtx3 True [False, True, True]) = Inr True \<and>
   needsZero (exCtx3 True [True, True, False]) = Inr False \<and>
   needsZero (exCtx3 False [False, True, True]) = Inr False"
  using needsZero_iff [of "exCtx3 True [False, True, True]"]
    needsZero_iff [of "exCtx3 True [True, True, False]"]
    needsZero_iff [of "exCtx3 False [False, True, True]"]
  by (simp add: exCtx3_simps exGraph3_simps exIterators3_result exIterators3_B getStepOf_def)

lemma resultStepsInsert_iff:
  "resultStepsInsert ctx p ns \<longleftrightarrow>
     (\<forall>i \<in> set ns. hasInsert (lookup (iterators ctx) (Step p i)))"
  by (induction ns) auto

lemma someStepFull_iff:
  "someStepFull ctx p ns \<longleftrightarrow> (\<exists>i \<in> set ns. isFull (lookup (iterators ctx) (Step p i)))"
  by (induction ns) auto

lemma findTensorPath_find:
  "findTensorPath n ps =
     (case find (\<lambda>p. getAccessName p = n) ps of None \<Rightarrow> Inl InternalError | Some p \<Rightarrow> Inr p)"
  by (induction ps) auto

text \<open>
  C1, as the code has it. \<open>doParallelize\<close> returns \<open>Serial\<close> when the index variable is
  not a root (its ancestor list, which holds the variable itself, has not exactly one
  entry), is a reduction variable, the \<open>Assemble\<close> property is set, or some step of the
  result tensor path has an iterator without insert capability. Otherwise, with the
  parallelized access the first tensor path whose tensor has the name of the iterated
  tensor, it returns \<open>Static\<close> when that path has at most 2 steps or at least one of its
  non-leading steps is full, and \<open>Dynamic\<close> in the remaining cases. When no tensor path
  has that name the internal assertion fails.
\<close>

theorem doParallelize_cases:
  "doParallelize indexVar tensor ctx =
     (if length (getAncestors (iterationGraph ctx) indexVar) \<noteq> 1 \<or>
         isReduction (iterationGraph ctx) indexVar \<or>
         Assemble \<in> properties ctx \<or>
         (\<exists>i \<in> {0 ..< getPathSize (getResultTensorPath (iterationGraph ctx))}.
            \<not> hasInsert (lookup (iterators ctx)
                 (Step (getResultTensorPath (iterationGraph ctx)) i)))
      then Inr Serial
      else case tensor of
        Var tensorName t \<Rightarrow>
          (case find (\<lambda>p. getAccessName p = tensorName) (getTensorPaths (iterationGraph ctx)) of
             None \<Rightarrow> Inl InternalError
           | Some parallelizedAccess \<Rightarrow>
               Inr (if getPathSize parallelizedAccess \<le> 2 \<or>
                       (\<exists>i \<in> {1 ..< getPathSize parallelizedAccess}.
                            isFull (lookup (iterators ctx) (Step parallelizedAccess i)))
                    then Static else Dynamic))
      | _ \<Rightarrow> Inl UndefinedBehaviour)"
proof (cases "length (getAncestors (iterationGraph ctx) indexVar) \<noteq> 1 \<or>
         isReduction (iterationGraph ctx) indexVar \<or>
         Assemble \<in> properties ctx \<or>
         (\<exists>i \<in> {0 ..< getPathSize (getResultTensorPath (iterationGraph ctx))}.
            \<not> hasInsert (lookup (iterators ctx)
                 (Step (getResultTensorPath (iterationGraph ctx)) i)))")
  case True
  then show ?thesis
    by (auto simp: doParallelize_def Let_def resultStepsInsert_iff)
next
  case False
  then have unfolded: "doParallelize indexVar tensor ctx =
      bind (bind (varName tensor) (\<lambda>tensorName.
                  findTensorPath tensorName (getTensorPaths (iterationGraph ctx))))
            (\<lambda>parallelizedAccess.
              if getPathSize parallelizedAccess \<le> 2 then Inr Static
              else if someStepFull ctx parallelizedAccess [1 ..< getPathSize parallelizedAccess]
                   then Inr Static
              else Inr Dynamic)"
    by (auto simp: doParallelize_def Let_def resultStepsInsert_iff)
  show ?thesis
    unfolding unfolded using False
    by (cases tensor)
       (auto simp: bind_def someStepFull_iff findTensorPath_find split: option.splits)
qed

theorem doParallelize_cases_witness:
  "doParallelize (IndexVar ''i'') (Var ''B'' Float64) (exCtx3 True [True, False, False])
     = Inr Dynamic \<and>
   doParallelize (IndexVar ''i'') (Var ''B'' Float64) (exCtx3 True [True, False, True])
     = Inr Static \<and>
   doParallelize (IndexVar ''j'') (Var ''B'' Float64) (exCtx3 True [True, True, True])
     = Inr Serial \<and>
   doParallelize (IndexVar ''i'') (Var ''C'' Float64) (exCtx3 True [True, True, True])
     = Inl InternalError"
  using doParallelize_cases [of "IndexVar ''i''" "Var ''B'' Float64" "exCtx3 True [True, False, False]"]
    doParallelize_cases [of "IndexVar ''i''" "Var ''B'' Float64" "exCtx3 True [True, False, True]"]
    doParallelize_cases [of "IndexVar ''j''" "Var ''B'' Float64" "exCtx3 True [True, True, True]"]
    doParallelize_cases [of "IndexVar ''i''" "Var ''C'' Float64" "exCtx3 True [True, True, True]"]
  by (simp add: exCtx3_simps exGraph3_simps exIterators3_result exIterators3_B getPathSize_def
        exGraph3_def atLeastLessThanSuc)

text \<open>
  C1 as the specification words it fails on the code in two ways. With a result level
  that can insert and \<open>B\<close> stored with levels full, full, not full, not every non-leading
  step is full, so the specification's rule says \<open>Dynamic\<close>, and the code answers
  \<open>Static\<close>. With a result level that cannot insert and all levels of \<open>B\<close> full the
  specification's rule says \<open>Static\<close>, and the code answers \<open>Serial\<close>.
\<close>

theorem doParallelize_not_spec:
  "doParallelize (IndexVar ''i'') (Var ''B'' Float64) (exCtx3 True [True, True, False])
     = Inr Static \<and>
   doParallelize_spec (IndexVar ''i'') (Var ''B'' Float64) (exCtx3 True [True, True, False])
     = Inr Dynamic \<and>
   doParallelize (IndexVar ''i'') (Var ''B'' Float64) (exCtx3 False [True, True, True])
     = Inr Serial \<and>
   doParallelize_spec (IndexVar ''i'') (Var ''B'' Float64) (exCtx3 False [True, True, True])
     = Inr Static"
  by (simp add: doParallelize_def doParallelize_spec_def bind_def exCtx3_simps exGraph3_simps
        getPathSize_def exIterators3_result exIterators3_B atLeastLessThanSuc)

section \<open>Properties of the recursive lowering\<close>

lemma bind_Inr_iff: "bind m f = Inr y \<longleftrightarrow> (\<exists>x. m = Inr x \<and> f x = Inr y)"
  by (cases m) (auto simp: bind_def)












lemma emitAvailableExprs_loop_appends:
  "emitAvailableExprs_loop env indexVar es (subst, stmts, ctx) = (subst', stmts', ctx') \<Longrightarrow>
   \<exists>new. stmts' = stmts @ new"
proof (induction es arbitrary: subst stmts ctx)
  case Nil
  then show ?case by simp
next
  case (Cons e es)
  from Cons.prems obtain subst1 s1 ctx1 where
    "emitAvailableExprs_loop env indexVar es (subst1, stmts @ [s1], ctx1) = (subst', stmts', ctx')"
    by (auto simp: Let_def)
  from Cons.IH [OF this] show ?case by auto
qed

lemma emitAvailableExprs_appends:
  "emitAvailableExprs env indexVar e ctx stmts = (e', ctx', stmts') \<Longrightarrow>
   \<exists>new. stmts' = stmts @ new"
  by (auto simp: emitAvailableExprs_def Let_def split: prod.splits
           dest: emitAvailableExprs_loop_appends)

lemma lowerChildren_appends:
  "lowerChildren env rec subExpr L ivarCase exhausted children (lqexpr, caseBody, childVars, ctx)
     = Inr (lqexpr', caseBody', childVars', ctx') \<Longrightarrow>
   \<exists>new. caseBody' = caseBody @ new"
proof (induction children arbitrary: lqexpr caseBody childVars ctx)
  case Nil
  then show ?case by simp
next
  case (Cons child rest)
  show ?case
  proof (cases "ivarCase = LAST_FREE \<or> ivarCase = BELOW_LAST_FREE")
    case True
    show ?thesis
    proof (cases "subExpr lqexpr (getDescendants (l_iterationGraph L) child) = UndefIndexExpr")
      case undef: True
      with True Cons.prems have
        "lowerChildren env rec subExpr L ivarCase exhausted rest (lqexpr, caseBody, childVars, ctx)
           = Inr (lqexpr', caseBody', childVars', ctx')"
        by (simp add: Let_def)
      from Cons.IH [OF this] show ?thesis .
    next
      case def: False
      with True Cons.prems obtain lq1 body1 cv1 ctx1 where
        rest: "lowerChildren env rec subExpr L ivarCase exhausted rest (lq1, body1, cv1, ctx1)
           = Inr (lqexpr', caseBody', childVars', ctx')" and
        body1: "\<exists>mid. body1 = caseBody @ mid"
        by (auto simp: Let_def bind_Inr_iff)
      from Cons.IH [OF rest] body1 show ?thesis by auto
    qed
  next
    case False
    with Cons.prems obtain childCode ctx1 where
      rest: "lowerChildren env rec subExpr L ivarCase exhausted rest
               (lqexpr, caseBody @ childCode, childVars, ctx1)
           = Inr (lqexpr', caseBody', childVars', ctx')"
      by (auto simp: bind_Inr_iff)
    from Cons.IH [OF rest] show ?thesis by auto
  qed
qed

lemma lowerCase_resize_first:
  assumes "lowerCase env rec L P lq ctx = Inr ((cond, body), ctx')"
    and "p_maybeResizeVals P \<noteq> UndefStmt" and "getLatticeSize (p_lpLattice P) = 1"
  shows "\<exists>rest. body = Block (p_maybeResizeVals P # rest)"
proof -
  let ?ivarCase = "getComputeCase (l_indexVar L) (l_iterationGraph L)"
  obtain lqexpr1 ctx1 caseBody1 where
    avail: "(if l_emitCompute L \<and> ABOVE_LAST_FREE = ?ivarCase
              then emitAvailableExprs env (l_indexVar L) (getExpr lq) ctx [p_maybeResizeVals P]
              else (getExpr lq, ctx, [p_maybeResizeVals P])) = (lqexpr1, ctx1, caseBody1)"
    by (metis prod_cases3)
  then have cb1: "\<exists>new. caseBody1 = [p_maybeResizeVals P] @ new"
    by (auto split: if_splits dest: emitAvailableExprs_appends)
  from assms avail cb1 show ?thesis
    by (auto simp: lowerCase_def Let_def bind_Inr_iff split: if_splits
             dest!: lowerChildren_appends)
qed

lemma lowerCase_without_resize:
  "getLatticeSize (p_lpLattice P) \<noteq> 1 \<Longrightarrow>
   lowerCase env rec L (P\<lparr>p_maybeResizeVals := UndefStmt\<rparr>) lq ctx = lowerCase env rec L P lq ctx"
  by (simp add: lowerCase_def Let_def)

lemma lowerCases_without_resize:
  "getLatticeSize (p_lpLattice P) \<noteq> 1 \<Longrightarrow>
   lowerCases env rec L (P\<lparr>p_maybeResizeVals := UndefStmt\<rparr>) lqs acc = lowerCases env rec L P lqs acc"
proof (induction lqs arbitrary: acc)
  case Nil
  then show ?case by simp
next
  case (Cons lq lqs)
  then show ?case
    by (cases acc) (simp add: lowerCase_without_resize)
qed

lemma lowerCases_single:
  assumes "lowerCases env rec L P lqs ([], ctx) = Inr (cases, ctx')"
    and "length lqs = 1"
    and "p_maybeResizeVals P \<noteq> UndefStmt" and "getLatticeSize (p_lpLattice P) = 1"
  shows "\<exists>cond rest. cases = [(cond, Block (p_maybeResizeVals P # rest))]"
proof -
  from assms(2) obtain lq where lqs: "lqs = [lq]"
    by (cases lqs) auto
  from assms(1) [unfolded lqs] obtain cond body where
    c: "lowerCase env rec L P lq ctx = Inr ((cond, body), ctx')" and cases: "cases = [(cond, body)]"
    by (auto simp: bind_Inr_iff)
  from lowerCase_resize_first [OF c assms(3,4)] cases show ?thesis by auto
qed

text \<open>
  C6. Let Compute and Assemble be set, the result iterator be defined with append
  capability, and the current result step be the last step of the result path. Then what
  \<open>lower\<close> puts into the loop of a lattice point is: the statements of the sequential
  accesses, the merged coordinate and the located positions, the segment ends, then the
  conditional resize \<open>resizeStmt\<close> when the sub-lattice of the point has more than one
  point, then the statement made of the cases, then the increments. The cases are those
  of the sub-lattice in its order. When the sub-lattice has exactly one point, there is
  one case and its body starts with the conditional resize; when it has not exactly one
  point, the cases are the ones emitted with no resize statement at all.
\<close>

theorem resize_placement:
  assumes body: "lowerPointBody env rec L lp ctx = Inr (loopBody, ctx')"
    and flags: "l_emitCompute L" "l_emitAssemble L"
    and ri: "l_resultIterator L = Some ri" "hasAppend ri"
    and last: "getLastStep (l_resultPath L) = Inr (l_resultStep L)"
  shows "\<exists>loopBody0 guarded1 ctx1 located mergeCode1 mergeCode2 guarded2 P cases ind ifStmt incs.
     initSequentialAccess env ctx (getRangeIterators lp) ([], {}) = Inr (loopBody0, guarded1) \<and>
     initLocate env ctx1 (l_resultIterator L) located (mergeCode1, guarded1)
       = Inr (mergeCode2, guarded2) \<and>
     p_lpLattice P = getSubLattice (tools env) (l_lattice L) lp \<and>
     p_maybeResizeVals P = resizeStmt ctx ri \<and>
     lowerCases env rec L P (getPoints (p_lpLattice P)) ([], ctx1) = Inr (cases, ctx') \<and>
     createIfStatements cases (p_lpLattice P) ind = Inr ifStmt \<and>
     loopBody = loopBody0 @ mergeCode2 @
        map (\<lambda>iterator. VarAssign (getSegendVar iterator)
                          (Add (getPosVar iterator) (IntLiteral 1)) True)
            (filter (\<lambda>iterator. hasCoordPosIter iterator \<and> \<not> isUnique iterator)
                    (getRangeIterators lp)) @
        (if getLatticeSize (p_lpLattice P) > 1 then [resizeStmt ctx ri] else []) @
        [ifStmt] @ incs \<and>
     (getLatticeSize (p_lpLattice P) = 1 \<longrightarrow>
        (\<exists>cond rest. cases = [(cond, Block (resizeStmt ctx ri # rest))])) \<and>
     (getLatticeSize (p_lpLattice P) \<noteq> 1 \<longrightarrow>
        lowerCases env rec L (P\<lparr>p_maybeResizeVals := UndefStmt\<rparr>) (getPoints (p_lpLattice P))
          ([], ctx1) = Inr (cases, ctx'))"
proof -
  let ?lpLattice = "getSubLattice (tools env) (l_lattice L) lp"
  have resize: "maybeResizeVals c (l_emitCompute L) (l_emitAssemble L) (l_resultIterator L)
      (l_resultStep L) (l_resultPath L) = resizeStmt ctx ri" if "valsCapacity c = valsCapacity ctx" for c
    using flags ri last that by (simp add: maybeResizeVals_def resizeStmt_def Let_def)
  have ne: "resizeStmt ctx ri \<noteq> UndefStmt"
    by (simp add: resizeStmt_def)
  from body obtain loopBody0 guarded1 mws where
    seq: "initSequentialAccess env ctx (getRangeIterators lp) ([], {}) = Inr (loopBody0, guarded1)" and
    mws: "mergeWithSwitch (length (getRangeIterators lp)) (getLatticeSize ?lpLattice) = Inr mws"
    by (auto simp: lowerPointBody_def Let_def bind_Inr_iff)
  obtain mergeCode1 idx ind where min:
    "(if mws
      then minWithIndicator (tools env) (getName (l_indexVar L)) (getRangeIterators lp)
      else (case minExpr (tools env) (getName (l_indexVar L)) (getRangeIterators lp) of
              (stmts, e) \<Rightarrow> (stmts, e, UndefExpr))) = (mergeCode1, idx, ind)"
    by (metis prod_cases3)
  define ctx1 where "ctx1 = ctx\<lparr>idxVars := bindIdx (idxVars ctx) (getIterators lp) (l_resultIterator L) idx\<rparr>"
  define located where "located = util_remove (getIterators lp) (getRangeIterators lp) @
                 (case l_resultIterator L of
                    None \<Rightarrow> []
                  | Some ri \<Rightarrow> if hasInsert ri then [ri] else [])"
  have cap: "valsCapacity ctx1 = valsCapacity ctx"
    by (simp add: ctx1_def)
  from body seq mws min obtain mergeCode2 guarded2 cases ifStmt where
    loc: "initLocate env ctx1 (l_resultIterator L) located (mergeCode1, guarded1)
            = Inr (mergeCode2, guarded2)" and
    cases: "lowerCases env rec L
              \<lparr>p_lpLattice = ?lpLattice, p_lpRangeIterators = getRangeIterators lp,
               p_guardedIters = guarded2, p_mergeWithSwitch = mws, p_idx = idx,
               p_maybeResizeVals = resizeStmt ctx ri\<rparr>
              (getPoints ?lpLattice) ([], ctx1) = Inr (cases, ctx')" and
    ifs: "createIfStatements cases ?lpLattice ind = Inr ifStmt" and
    lb: "loopBody = loopBody0 @ (mergeCode2 @
        map (\<lambda>iterator. VarAssign (getSegendVar iterator)
                          (Add (getPosVar iterator) (IntLiteral 1)) True)
            (filter (\<lambda>iterator. hasCoordPosIter iterator \<and> \<not> isUnique iterator)
                    (getRangeIterators lp)) @
        (if getLatticeSize ?lpLattice > 1 then [resizeStmt ctx ri] else [])) @
        [ifStmt] @
        (if l_emitMerge L
         then incrementIterators env mws (getRangeIterators lp) idx ind else [])"
    unfolding lowerPointBody_def Let_def
    by (auto simp: bind_Inr_iff resize ne ctx1_def located_def)
  let ?P = "\<lparr>p_lpLattice = ?lpLattice, p_lpRangeIterators = getRangeIterators lp,
               p_guardedIters = guarded2, p_mergeWithSwitch = mws, p_idx = idx,
               p_maybeResizeVals = resizeStmt ctx ri\<rparr>"
  have one: "\<exists>cond rest. cases = [(cond, Block (resizeStmt ctx ri # rest))]"
    if "getLatticeSize ?lpLattice = 1"
    using lowerCases_single [OF cases] that ne by (simp add: getLatticeSize_def)
  have other: "lowerCases env rec L (?P\<lparr>p_maybeResizeVals := UndefStmt\<rparr>) (getPoints ?lpLattice)
          ([], ctx1) = Inr (cases, ctx')" if "getLatticeSize ?lpLattice \<noteq> 1"
    using lowerCases_without_resize [of ?P env rec L "getPoints ?lpLattice" "([], ctx1)"] that cases
    by simp
  show ?thesis
    apply (rule exI [of _ loopBody0], rule exI [of _ guarded1], rule exI [of _ ctx1],
           rule exI [of _ located], rule exI [of _ mergeCode1], rule exI [of _ mergeCode2],
           rule exI [of _ guarded2], rule exI [of _ ?P], rule exI [of _ cases],
           rule exI [of _ ind], rule exI [of _ ifStmt],
           rule exI [of _ "if l_emitMerge L
         then incrementIterators env mws (getRangeIterators lp) idx ind else []"])
    using seq loc cases ifs lb one other by simp
qed

lemma exLSum_facts:
  "l_emitCompute exLSum" "l_emitAssemble exLSum"
  "l_resultIterator exLSum = Some exResultIterator"
  "hasAppend exResultIterator"
  "getLastStep (l_resultPath exLSum) = Inr (l_resultStep exLSum)"
  "getLatticeSize (getSubLattice (tools exEnv) (l_lattice exLSum) (getPoints (l_lattice exLSum) ! 0)) = 3"
  "getLatticeSize (getSubLattice (tools exEnv) (l_lattice exLSum) (getPoints (l_lattice exLSum) ! 1)) = 1"
  by code_simp+

lemma exLSum_points_ok:
  "(case lowerPointBody exEnv (lower 0 exEnv) exLSum (getPoints (l_lattice exLSum) ! 0) exCtxSum
    of Inr r \<Rightarrow> True | Inl e \<Rightarrow> False)"
  "(case lowerPointBody exEnv (lower 0 exEnv) exLSum (getPoints (l_lattice exLSum) ! 1) exCtxSum
    of Inr r \<Rightarrow> True | Inl e \<Rightarrow> False)"
  by code_simp+

theorem resize_placement_witness:
  "(\<exists>loopBody ctx' pre ifStmt incs.
      lowerPointBody exEnv (lower 0 exEnv) exLSum (getPoints (l_lattice exLSum) ! 0) exCtxSum
        = Inr (loopBody, ctx') \<and>
      loopBody = pre @ [resizeStmt exCtxSum exResultIterator, ifStmt] @ incs) \<and>
   (\<exists>loopBody ctx' pre cond rest ind ifStmt incs.
      lowerPointBody exEnv (lower 0 exEnv) exLSum (getPoints (l_lattice exLSum) ! 1) exCtxSum
        = Inr (loopBody, ctx') \<and>
      createIfStatements [(cond, Block (resizeStmt exCtxSum exResultIterator # rest))]
        (getSubLattice (tools exEnv) (l_lattice exLSum) (getPoints (l_lattice exLSum) ! 1)) ind
        = Inr ifStmt \<and>
      loopBody = pre @ [ifStmt] @ incs)"
proof -
  from exLSum_points_ok(1) obtain body0 ctx0 where
    r0: "lowerPointBody exEnv (lower 0 exEnv) exLSum (getPoints (l_lattice exLSum) ! 0) exCtxSum
           = Inr (body0, ctx0)"
    by (auto split: sum.splits)
  from exLSum_points_ok(2) obtain body1 ctx1 where
    r1: "lowerPointBody exEnv (lower 0 exEnv) exLSum (getPoints (l_lattice exLSum) ! 1) exCtxSum
           = Inr (body1, ctx1)"
    by (auto split: sum.splits)
  from resize_placement [OF r0 exLSum_facts(1-5)] exLSum_facts(6)
  obtain pre ifStmt incs where "body0 = pre @ [resizeStmt exCtxSum exResultIterator, ifStmt] @ incs"
    by (elim exE conjE) (simp, metis append.assoc)
  with r0 have first: "\<exists>loopBody ctx' pre ifStmt incs.
      lowerPointBody exEnv (lower 0 exEnv) exLSum (getPoints (l_lattice exLSum) ! 0) exCtxSum
        = Inr (loopBody, ctx') \<and>
      loopBody = pre @ [resizeStmt exCtxSum exResultIterator, ifStmt] @ incs"
    by blast
  from resize_placement [OF r1 exLSum_facts(1-5)] exLSum_facts(7)
  obtain pre cond rest ind ifStmt incs where
    "createIfStatements [(cond, Block (resizeStmt exCtxSum exResultIterator # rest))]
        (getSubLattice (tools exEnv) (l_lattice exLSum) (getPoints (l_lattice exLSum) ! 1)) ind
        = Inr ifStmt"
    "body1 = pre @ [ifStmt] @ incs"
    by (elim exE conjE) (simp, metis append.assoc)
  with r1 have second: "\<exists>loopBody ctx' pre cond rest ind ifStmt incs.
      lowerPointBody exEnv (lower 0 exEnv) exLSum (getPoints (l_lattice exLSum) ! 1) exCtxSum
        = Inr (loopBody, ctx') \<and>
      createIfStatements [(cond, Block (resizeStmt exCtxSum exResultIterator # rest))]
        (getSubLattice (tools exEnv) (l_lattice exLSum) (getPoints (l_lattice exLSum) ! 1)) ind
        = Inr ifStmt \<and>
      loopBody = pre @ [ifStmt] @ incs"
    by blast
  from first second show ?thesis by (rule conjI)
qed

section \<open>Properties of the top-level driver\<close>


lemma needsZero_valsCapacity [simp]:
  "needsZero (ctx\<lparr>valsCapacity := v\<rparr>) = needsZero ctx"
  by (simp add: needsZero_iff)








text \<open>
  C8. The driver goes on when the operator of the top-level assignment is undefined or
  an Add, and stops with the temporary assertion on any other defined operator. It works
  with the given properties when the operator is undefined and with the properties plus
  Accumulate when it is an Add. (Before that it needs a defined assignment and one of
  Assemble and Compute.)
\<close>

theorem lowerTensorVar_operator:
  "lowerTensorVar depth env setup tensorVar functionName props allocSz =
     (if getAssignment tensorVar = UndefAssignment then Inl UndefinedBehaviour
      else if Assemble \<notin> props \<and> Compute \<notin> props then Inl InternalError
      else if getOperator (getAssignment tensorVar) = UndefIndexExpr
      then lowerWithProperties env setup (lower depth env) tensorVar functionName props allocSz
      else if isAddNode (getOperator (getAssignment tensorVar))
      then lowerWithProperties env setup (lower depth env) tensorVar functionName
             (insert Accumulate props) allocSz
      else Inl TemporaryError)"
  by (auto simp: lowerTensorVar_def Let_def)

lemma exDriver_differs:
  "lowerWithProperties exEnv (exSetup (exGraph1 [exPathB]) (exIterators1 True True (IntLiteral 4)))
     (lower (Suc 0) exEnv) (exTensorVar (AddNode UndefIndexExpr UndefIndexExpr)) ''compute''
     {Accumulate, Compute} 5
   \<noteq> lowerWithProperties exEnv (exSetup (exGraph1 [exPathB]) (exIterators1 True True (IntLiteral 4)))
     (lower (Suc 0) exEnv) (exTensorVar (AddNode UndefIndexExpr UndefIndexExpr)) ''compute''
     {Compute} 5"
  by code_simp

theorem lowerTensorVar_operator_witness:
  "lowerTensorVar (Suc 0) exEnv
     (exSetup (exGraph1 [exPathB]) (exIterators1 True True (IntLiteral 4)))
     (exTensorVar UndefIndexExpr) ''compute'' {Compute} 5
   = lowerWithProperties exEnv
       (exSetup (exGraph1 [exPathB]) (exIterators1 True True (IntLiteral 4)))
       (lower (Suc 0) exEnv) (exTensorVar UndefIndexExpr) ''compute'' {Compute} 5
   \<and> lowerTensorVar (Suc 0) exEnv
       (exSetup (exGraph1 [exPathB]) (exIterators1 True True (IntLiteral 4)))
       (exTensorVar (AddNode UndefIndexExpr UndefIndexExpr)) ''compute'' {Compute} 5
     = lowerWithProperties exEnv
         (exSetup (exGraph1 [exPathB]) (exIterators1 True True (IntLiteral 4)))
         (lower (Suc 0) exEnv) (exTensorVar (AddNode UndefIndexExpr UndefIndexExpr)) ''compute''
         {Accumulate, Compute} 5
   \<and> lowerTensorVar (Suc 0) exEnv
       (exSetup (exGraph1 [exPathB]) (exIterators1 True True (IntLiteral 4)))
       (exTensorVar (SubNode UndefIndexExpr UndefIndexExpr)) ''compute'' {Compute} 5
     = Inl TemporaryError"
  using
    lowerTensorVar_operator [of "Suc 0" exEnv
      "exSetup (exGraph1 [exPathB]) (exIterators1 True True (IntLiteral 4))"
      "exTensorVar UndefIndexExpr" "''compute''" "{Compute}" 5]
    lowerTensorVar_operator [of "Suc 0" exEnv
      "exSetup (exGraph1 [exPathB]) (exIterators1 True True (IntLiteral 4))"
      "exTensorVar (AddNode UndefIndexExpr UndefIndexExpr)" "''compute''" "{Compute}" 5]
    lowerTensorVar_operator [of "Suc 0" exEnv
      "exSetup (exGraph1 [exPathB]) (exIterators1 True True (IntLiteral 4))"
      "exTensorVar (SubNode UndefIndexExpr UndefIndexExpr)" "''compute''" "{Compute}" 5]
  by (simp add: exTensorVar_def)

section \<open>Properties of the choice between switch and nested conditionals\<close>

lemma shift_one_unat:
  assumes "n < 32"
  shows "unat (push_bit n (1 :: 32 word) - 1) = 2 ^ n - 1"
proof -
  have "push_bit n (1 :: 32 word) = of_nat (2 ^ n)"
    by (simp add: push_bit_eq_mult)
  then have "unat (push_bit n (1 :: 32 word)) = 2 ^ n mod 2 ^ 32"
    by (simp only: unat_of_nat) simp
  moreover from assms have "(2 :: nat) ^ n < 2 ^ 32"
    by (rule power_strict_increasing) simp
  ultimately have u: "unat (push_bit n (1 :: 32 word)) = 2 ^ n"
    by simp
  from assms have "push_bit n (1 :: 32 word) \<noteq> 0" by simp
  then have "unat (push_bit n (1 :: 32 word) - 1) = unat (push_bit n (1 :: 32 word)) - 1"
    by (rule unat_minus_one)
  with u show ?thesis by simp
qed

lemma mergeWithSwitch_below_word_size:
  assumes "n < UInt_getNumBits"
  shows "mergeWithSwitch n latticeSize = Inr (2 < n \<and> latticeSize = 2 ^ n - 1)"
proof -
  from assms have n: "n < 32" by (simp add: UInt_getNumBits_def)
  show ?thesis
    unfolding mergeWithSwitch_def UInt_getNumBits_def shift_one_unat [OF n]
    using n by auto
qed







lemma mergeWithSwitch_defined:
  assumes "n \<noteq> UInt_getNumBits"
  shows "mergeWithSwitch n latticeSize =
           Inr (2 < n \<and> n \<le> UInt_getNumBits \<and> latticeSize = 2 ^ n - 1)"
proof (cases "n < UInt_getNumBits")
  case True
  with mergeWithSwitch_below_word_size [OF True, of latticeSize] show ?thesis by simp
next
  case False
  with assms show ?thesis by (simp add: mergeWithSwitch_def)
qed





section \<open>Properties of isLowerable\<close>

lemma isLowerable_concrete_only:
  "isLowerable isConcreteNotation stmt =
     (if isConcreteNotation stmt then (True, [])
      else (False, ''The index statement is not in concrete index notation''))"
  by (simp add: isLowerable_def)

text \<open>
  C7. \<open>isLowerable\<close> rejects a statement only when it is not in concrete index notation.
  The statement \<open>forall i. forall j. A(i,j) = B(j,i)\<close>, a transposition, is in concrete
  notation, and \<open>isLowerable\<close> returns true for it and leaves the reason empty.
\<close>

theorem isLowerable_accepts_transposition:
  "isLowerable exIsConcrete exTransposeStmt = (True, [])"
  by (simp add: isLowerable_def exTransposeStmt_def)

section \<open>Properties of pack\<close>

lemma pack_scalar_double:
  assumes "getOrder content = 0" and "coordinates content \<noteq> []"
    and "val (last (coordinates content)) = dval d"
  shows "pack packLevels content =
           Inr (content\<lparr>storage := (storage content)\<lparr>getValues := Some [d]\<rparr>,
                        coordinates := []\<rparr>)"
  using assms by (simp add: pack_def bind_def)

text \<open>
  C10. \<open>pack\<close> of a scalar tensor reads the member \<^verbatim>\<open>dval\<close> of the last pending
  coordinate whatever the component type. After \<^verbatim>\<open>insert({}, 7)\<close> into a scalar tensor
  of component type Int the last coordinate holds its value in \<^verbatim>\<open>ival\<close>, so \<open>pack\<close>
  does not write the inserted value; into a tensor of component type Double it does, and
  clears the pending coordinates.
\<close>

theorem pack_scalar_reads_dval:
  "bind (insert_tb (exScalar CTInt) [] (ival 7)) (pack Inr) = Inl UndefinedBehaviour
   \<and> bind (insert_tb (exScalar CTDouble) [] (dval 7)) (pack Inr)
       = Inr ((exScalar CTDouble)
                \<lparr>storage := \<lparr>getFormat = [], getLevelIndex = [], getValues = Some [7]\<rparr>\<rparr>)"
  by (simp add: exScalar_def insert_int_def insert_double_def getOrder_def getComponentType_def
        pack_def bind_def)

end
